theory Spec2Isabelle
  imports Complex_Main
begin

section \<open>Message text\<close>

text \<open>
  A chat message is a JavaScript string. It is modelled as a \<open>string\<close> whose characters are
  the Latin-1 code units (the alphabet of the Spanish messages the backend parses); the
  helpers below are \<open>toLowerCase\<close>, \<open>trim\<close>, \<open>includes\<close>, \<open>startsWith\<close> and \<open>parseInt\<close> on
  that alphabet.
\<close>

definition is_digit :: "char \<Rightarrow> bool" where
  \<comment> \<open>the regular-expression class \<open>\d\<close>\<close>
  "is_digit c = (c \<in> set ''0123456789'')"

definition is_space :: "char \<Rightarrow> bool" where
  \<comment> \<open>the class \<open>\s\<close>, which is also what \<open>trim\<close> removes: TAB, LF, VT, FF, CR, space, NBSP\<close>
  "is_space c = ((of_char c :: nat) \<in> {9, 10, 11, 12, 13, 32, 160})"

definition is_word :: "char \<Rightarrow> bool" where
  \<comment> \<open>the class \<open>\w\<close> that decides a word boundary \<open>\b\<close>\<close>
  "is_word c = (c \<in> set ''abcdefghijklmnopqrstuvwxyzABCDEFGHIJKLMNOPQRSTUVWXYZ0123456789_'')"

definition lower_char :: "char \<Rightarrow> char" where
  \<comment> \<open>the capital letters of Latin-1 are A to Z and 0xC0 to 0xDE without the sign 0xD7\<close>
  "lower_char c =
     (let n = (of_char c :: nat)
      in if (65 \<le> n \<and> n \<le> 90) \<or> (192 \<le> n \<and> n \<le> 222 \<and> n \<noteq> 215)
         then char_of (n + 32) else c)"

definition toLowerCase :: "string \<Rightarrow> string" where
  "toLowerCase s = map lower_char s"

definition trim :: "string \<Rightarrow> string" where
  "trim s = rev (dropWhile is_space (rev (dropWhile is_space s)))"

fun strip_prefix :: "string \<Rightarrow> string \<Rightarrow> string option" where
  \<comment> \<open>\<open>strip_prefix p s\<close> is the rest of \<open>s\<close> after the literal \<open>p\<close>, when \<open>s\<close> starts with it\<close>
  "strip_prefix [] s = Some s"
| "strip_prefix (p # ps) [] = None"
| "strip_prefix (p # ps) (c # cs) = (if p = c then strip_prefix ps cs else None)"

definition startsWith :: "string \<Rightarrow> string \<Rightarrow> bool" where
  "startsWith s p = (strip_prefix p s \<noteq> None)"

fun str_includes :: "string \<Rightarrow> string \<Rightarrow> bool" where
  \<comment> \<open>\<open>s.includes(p)\<close>\<close>
  "str_includes [] p = (p = [])"
| "str_includes (c # cs) p = (startsWith (c # cs) p \<or> str_includes cs p)"

definition digit_val :: "char \<Rightarrow> int" where
  "digit_val c = of_char c - 48"

definition parseInt :: "string \<Rightarrow> int" where
  \<comment> \<open>\<open>parseInt\<close> of a non-empty run of decimal digits, exact (JavaScript rounds a number
      above \<open>2^53\<close>)\<close>
  "parseInt ds = foldl (\<lambda>n c. 10 * n + digit_val c) 0 ds"

subsection \<open>Regular-expression search\<close>

text \<open>
  \<open>String.prototype.match\<close> without the \<open>g\<close> flag returns the leftmost match: the pattern is
  tried at each position from left to right. \<open>search f s\<close> tries the anchored matcher \<open>f\<close> on
  every suffix of \<open>s\<close> in that order; \<open>search_b\<close> also hands the matcher the character
  before the position, which a leading \<open>\b\<close> needs.
\<close>

fun search :: "(string \<Rightarrow> 'a option) \<Rightarrow> string \<Rightarrow> 'a option" where
  "search f [] = f []"
| "search f (c # cs) = (case f (c # cs) of Some r \<Rightarrow> Some r | None \<Rightarrow> search f cs)"

fun search_b :: "(char option \<Rightarrow> string \<Rightarrow> bool) \<Rightarrow> char option \<Rightarrow> string \<Rightarrow> bool" where
  "search_b f prev [] = f prev []"
| "search_b f prev (c # cs) = (f prev (c # cs) \<or> search_b f (Some c) cs)"

definition word_start :: "char option \<Rightarrow> bool" where
  \<comment> \<open>\<open>\b\<close> before a word character: the previous character is no word character\<close>
  "word_start prev = (case prev of None \<Rightarrow> True | Some c \<Rightarrow> \<not> is_word c)"

definition word_end :: "string \<Rightarrow> bool" where
  \<comment> \<open>\<open>\b\<close> after a word character: the next character is no word character\<close>
  "word_end s = (case s of [] \<Rightarrow> True | c # _ \<Rightarrow> \<not> is_word c)"

definition skip_spaces :: "string \<Rightarrow> string" where
  \<comment> \<open>\<open>\s*\<close> (greedy; what follows it in every pattern is no space)\<close>
  "skip_spaces s = dropWhile is_space s"

definition one_of :: "string list \<Rightarrow> string \<Rightarrow> bool" where
  \<comment> \<open>an alternation of literals with nothing after it\<close>
  "one_of ws s = (\<exists>w \<in> set ws. startsWith s w)"

section \<open>extractReminderDay\<close>

definition day_digits :: "string \<Rightarrow> int option" where
  \<comment> \<open>\<open>\s*(\d{1,2})\<close>: the captured group, parsed\<close>
  "day_digits s =
     (let ds = take 2 (takeWhile is_digit (skip_spaces s))
      in if ds = [] then None else Some (parseInt ds))"

definition pat_only_number :: "string \<Rightarrow> int option" where
  \<comment> \<open>\<open>/^(\d{1,2})$/\<close>\<close>
  "pat_only_number s =
     (if s \<noteq> [] \<and> length s \<le> 2 \<and> list_all is_digit s then Some (parseInt s) else None)"

definition pat_dia :: "string \<Rightarrow> int option" where
  \<comment> \<open>the pattern for "dia 15": \<open>d\<close>, then \<open>i\<close> or the accented i (the code unit 0xED), then
      \<open>a\s*(\d{1,2})\<close>\<close>
  "pat_dia s =
     search (\<lambda>t. case t of
                    d # i # a # r \<Rightarrow>
                      if d = CHR ''d'' \<and> (i = CHR ''i'' \<or> i = CHR 0xED) \<and> a = CHR ''a''
                      then day_digits r else None
                  | _ \<Rightarrow> None) s"

definition pat_el :: "string \<Rightarrow> int option" where
  \<comment> \<open>\<open>/el\s*(\d{1,2})/\<close>\<close>
  "pat_el s = search (\<lambda>t. case strip_prefix ''el'' t of Some r \<Rightarrow> day_digits r | None \<Rightarrow> None) s"

definition pat_cada :: "string \<Rightarrow> int option" where
  \<comment> \<open>\<open>/cada\s*(\d{1,2})/\<close>\<close>
  "pat_cada s =
     search (\<lambda>t. case strip_prefix ''cada'' t of Some r \<Rightarrow> day_digits r | None \<Rightarrow> None) s"

definition pat_los :: "string \<Rightarrow> int option" where
  \<comment> \<open>\<open>/los?\s*(\d{1,2})/\<close>: the optional s is taken when it is there (without it the
      next character would have to be a space or a digit)\<close>
  "pat_los s =
     search (\<lambda>t. case strip_prefix ''lo'' t of
                    Some r \<Rightarrow>
                      (case strip_prefix ''s'' r of Some r' \<Rightarrow> day_digits r' | None \<Rightarrow> day_digits r)
                  | None \<Rightarrow> None) s"

fun first_valid_day :: "int option list \<Rightarrow> int option" where
  \<comment> \<open>the loop over the patterns: the first match whose day is between 1 and 31\<close>
  "first_valid_day [] = None"
| "first_valid_day (m # ms) =
     (case m of
        Some d \<Rightarrow> if d \<ge> 1 \<and> d \<le> 31 then Some d else first_valid_day ms
      | None \<Rightarrow> first_valid_day ms)"

definition extractReminderDay :: "string \<Rightarrow> int option" where
  "extractReminderDay message =
     (let cleaned = trim (toLowerCase message)
      in first_valid_day
           [pat_only_number cleaned, pat_dia cleaned, pat_el cleaned, pat_cada cleaned,
            pat_los cleaned])"

section \<open>extractAmount\<close>

definition alt_then :: "string list \<Rightarrow> (string \<Rightarrow> bool) \<Rightarrow> string \<Rightarrow> bool" where
  \<comment> \<open>an alternation of literals followed by the rest of the pattern \<open>k\<close>: the pattern
      matches when one alternative followed by \<open>k\<close> does (the engine backtracks over them)\<close>
  "alt_then ws k s = list_ex (\<lambda>w. case strip_prefix w s of Some r \<Rightarrow> k r | None \<Rightarrow> False) ws"

definition pat_words :: "string list \<Rightarrow> string list \<Rightarrow> string \<Rightarrow> bool" where
  \<comment> \<open>\<open>/\b(a1|a2)\s*(b1|b2)\b/.test(s)\<close> for literals that start and end with a word character\<close>
  "pat_words as bs s =
     search_b (\<lambda>prev t. word_start prev \<and>
                 alt_then as (\<lambda>r. alt_then bs word_end (skip_spaces r)) t) None s"

definition pat_number_unit :: "string list \<Rightarrow> string \<Rightarrow> int option" where
  \<comment> \<open>\<open>/(\d+)\s*(u1|u2|...)/\<close>: the captured digits of the leftmost match, parsed\<close>
  "pat_number_unit units s =
     search (\<lambda>t. let ds = takeWhile is_digit t
                 in if ds \<noteq> [] \<and> one_of units (skip_spaces (dropWhile is_digit t))
                    then Some (parseInt ds) else None) s"

definition pat_number :: "string \<Rightarrow> int option" where
  \<comment> \<open>\<open>/(\d+)/\<close>: the first run of digits\<close>
  "pat_number s =
     search (\<lambda>t. let ds = takeWhile is_digit t in if ds \<noteq> [] then Some (parseInt ds) else None) s"

definition extractAmount :: "string \<Rightarrow> int option" where
  "extractAmount text =
     (let cleaned = filter (\<lambda>c. c \<notin> set ''$.,'') (toLowerCase text)
      in if pat_words [''un'', ''1''] [''millon''] cleaned then Some 1000000
         else if pat_words [''dos'', ''2''] [''millone'', ''millones''] cleaned then Some 2000000
         else if pat_words [''tres'', ''3''] [''millone'', ''millones''] cleaned then Some 3000000
         else if pat_words [''medio''] [''millon''] cleaned then Some 500000
         else if pat_words [''una'', ''1''] [''luca'', ''lucas''] cleaned then Some 1000
         else (case pat_number_unit [''lucas'', ''luca'', ''lukas'', ''mil'', ''k''] cleaned of
                 Some n \<Rightarrow> Some (n * 1000)
               | None \<Rightarrow>
                  (case pat_number_unit [''palo'', ''palos'', ''millon'', ''millones''] cleaned of
                     Some n \<Rightarrow> Some (n * 1000000)
                   | None \<Rightarrow> pat_number cleaned)))"

section \<open>Data model\<close>

text \<open>
  The tables of the PostgreSQL store, each as the list of its rows, and the two \<open>SERIAL\<close>
  sequences the modelled code draws ids from. Amounts are \<open>DECIMAL(12,2)\<close> columns that the
  code reads with \<open>parseFloat\<close>; they are modelled as exact rationals, so the rounding of
  floating-point arithmetic is not part of the model. Timestamps are milliseconds.
  A transaction's description is never \<open>NULL\<close> (every \<open>INSERT\<close> stores \<open>description || ''\<close>),
  and a user who reaches the modelled handlers has completed onboarding, so the income
  and the savings goal are set.

  The column \<open>users.pending_fixed_expense_id\<close> is a plain nullable integer here. Migration
  001 declares it \<open>INTEGER REFERENCES fixed_expenses(id)\<close>; under that key every write of
  \<open>-999\<close>, \<open>-998\<close>, \<open>-2000 - id\<close> or \<open>-id\<close> that \<open>server.js\<close> makes would be refused by the
  store, and no pending action but a positive fixed-expense id could ever be read back.
  The later schema notes of the repository list the column without a key, and the model
  follows them: the column holds whatever \<open>setPendingFixedExpense\<close> is given.
  The table \<open>fixed_expenses\<close> has no unique constraint besides its primary key (migration
  001), so nothing but the handlers keeps one row per user and description.
\<close>

record date =
  year :: int
  month :: int
  dom :: int

datatype expense_type = Fixed | Variable

record user =
  u_id :: int
  u_phone :: string
  u_name :: string
  u_monthly_income :: rat
  u_savings_goal :: rat
  u_onboarding_complete :: bool
  u_last_income_update_prompt :: "int option"
  u_income_update_declined :: bool
  u_pending_fixed_expense_id :: "int option"
  u_last_shown_tx_ids :: "int list option"

record txn =
  tx_id :: int
  tx_user_id :: int
  tx_amount :: rat
  tx_category_id :: "int option"
  tx_description :: string
  tx_date :: date
  tx_is_income :: bool
  tx_expense_type :: expense_type
  tx_fixed_expense_id :: "int option"
  tx_created_at :: int

record fixed_expense =
  fe_id :: int
  fe_user_id :: int
  fe_description :: string
  fe_typical_amount :: rat
  fe_category_id :: "int option"
  fe_reminder_day :: "int option"
  fe_is_active :: bool

record budget =
  b_user_id :: int
  b_category_id :: int
  b_monthly_limit :: rat

record category =
  c_id :: int
  c_name :: string
  c_emoji :: string

record financial_alert =
  fa_user_id :: int
  fa_alert_type :: string
  fa_alert_date :: date

record db =
  users :: "user list"
  transactions :: "txn list"
  fixed_expenses :: "fixed_expense list"
  budgets :: "budget list"
  categories :: "category list"
  financial_alerts :: "financial_alert list"
  transactions_seq :: int
  fixed_expenses_seq :: int

text \<open>
  What the code reads from its clocks: \<open>Date.now()\<close> and SQL \<open>NOW()\<close> (\<open>now_ms\<close>), SQL
  \<open>CURRENT_DATE\<close> (\<open>current_date\<close>) and the calendar date of \<open>new Date()\<close> in the server's
  time zone (\<open>local_date\<close>).
\<close>

record env =
  now_ms :: int
  current_date :: date
  local_date :: date

subsection \<open>Dates\<close>

definition date_le :: "date \<Rightarrow> date \<Rightarrow> bool" where
  "date_le a b =
     (year a < year b \<or>
      (year a = year b \<and> (month a < month b \<or> (month a = month b \<and> dom a \<le> dom b))))"

definition date_lt :: "date \<Rightarrow> date \<Rightarrow> bool" where
  "date_lt a b = (date_le a b \<and> a \<noteq> b)"

definition month_start :: "date \<Rightarrow> date" where
  \<comment> \<open>\<open>date_trunc('month', d)\<close>\<close>
  "month_start d = \<lparr>year = year d, month = month d, dom = 1\<rparr>"

definition minus_months :: "date \<Rightarrow> int \<Rightarrow> date" where
  \<comment> \<open>\<open>d - INTERVAL 'n months'\<close> for the first day of a month\<close>
  "minus_months d n =
     (let i = year d * 12 + (month d - 1) - n
      in \<lparr>year = i div 12, month = i mod 12 + 1, dom = 1\<rparr>)"

definition is_leap :: "int \<Rightarrow> bool" where
  "is_leap y = (y mod 4 = 0 \<and> (y mod 100 \<noteq> 0 \<or> y mod 400 = 0))"

definition days_in_month :: "int \<Rightarrow> int \<Rightarrow> int" where
  \<comment> \<open>\<open>new Date(y, m + 1, 0).getDate()\<close> for the zero-based month \<open>m\<close>; here \<open>m\<close> is one-based\<close>
  "days_in_month y m =
     (if m = 2 then (if is_leap y then 29 else 28)
      else if m = 4 \<or> m = 6 \<or> m = 9 \<or> m = 11 then 30 else 31)"

definition this_month :: "date \<Rightarrow> date \<Rightarrow> bool" where
  \<comment> \<open>the SQL condition \<open>date >= date_trunc('month', CURRENT_DATE)\<close>\<close>
  "this_month today d = date_le (month_start today) d"

subsection \<open>SQL helpers\<close>

fun insert_by :: "('a \<Rightarrow> 'a \<Rightarrow> bool) \<Rightarrow> 'a \<Rightarrow> 'a list \<Rightarrow> 'a list" where
  "insert_by le x [] = [x]"
| "insert_by le x (y # ys) = (if le x y then x # y # ys else y # insert_by le x ys)"

definition order_by :: "('a \<Rightarrow> 'a \<Rightarrow> bool) \<Rightarrow> 'a list \<Rightarrow> 'a list" where
  \<comment> \<open>\<open>ORDER BY\<close>: rows that compare equal keep the table's order (SQL leaves it open)\<close>
  "order_by le xs = foldr (insert_by le) xs []"

fun string_le :: "string \<Rightarrow> string \<Rightarrow> bool" where
  \<comment> \<open>the order of text in \<open>ORDER BY\<close>, by code unit (the database's collation decides it)\<close>
  "string_le [] t = True"
| "string_le (c # cs) [] = False"
| "string_le (c # cs) (e # es) =
     ((of_char c :: nat) < of_char e \<or> (c = e \<and> string_le cs es))"

definition sum_amounts :: "txn list \<Rightarrow> rat" where
  \<comment> \<open>\<open>SUM(amount)\<close> over the selected rows, 0 when there is none (\<open>COALESCE\<close> or \<open>|| 0\<close>)\<close>
  "sum_amounts rows = sum_list (map tx_amount rows)"

definition update_user :: "int \<Rightarrow> (user \<Rightarrow> user) \<Rightarrow> db \<Rightarrow> db" where
  \<comment> \<open>\<open>UPDATE users SET ... WHERE id = $1\<close>\<close>
  "update_user uid f d = d\<lparr>users := map (\<lambda>u. if u_id u = uid then f u else u) (users d)\<rparr>"

definition category_of :: "db \<Rightarrow> int option \<Rightarrow> category option" where
  \<comment> \<open>the row a \<open>LEFT JOIN categories c ON x.category_id = c.id\<close> adds, if any\<close>
  "category_of d cid =
     (case cid of None \<Rightarrow> None | Some i \<Rightarrow> find (\<lambda>c. c_id c = i) (categories d))"

section \<open>Fixed expenses\<close>

definition createFixedExpense ::
  "int \<Rightarrow> string \<Rightarrow> rat \<Rightarrow> int option \<Rightarrow> int option \<Rightarrow> db \<Rightarrow> fixed_expense \<times> db" where
  "createFixedExpense userId description amount categoryId reminderDay d =
     (let row = \<lparr>fe_id = fixed_expenses_seq d, fe_user_id = userId, fe_description = description,
                 fe_typical_amount = amount, fe_category_id = categoryId,
                 fe_reminder_day = reminderDay, fe_is_active = True\<rparr>
      in (row, d\<lparr>fixed_expenses := fixed_expenses d @ [row],
                  fixed_expenses_seq := fixed_expenses_seq d + 1\<rparr>))"

definition fe_order :: "fixed_expense \<Rightarrow> fixed_expense \<Rightarrow> bool" where
  \<comment> \<open>\<open>ORDER BY fe.reminder_day NULLS LAST, fe.description\<close>\<close>
  "fe_order a b =
     (case (fe_reminder_day a, fe_reminder_day b) of
        (None, None) \<Rightarrow> string_le (fe_description a) (fe_description b)
      | (None, Some y) \<Rightarrow> False
      | (Some x, None) \<Rightarrow> True
      | (Some x, Some y) \<Rightarrow>
          x < y \<or> (x = y \<and> string_le (fe_description a) (fe_description b)))"

definition getFixedExpenses :: "int \<Rightarrow> bool \<Rightarrow> db \<Rightarrow> fixed_expense list" where
  "getFixedExpenses userId onlyActive d =
     order_by fe_order
       (filter (\<lambda>fe. fe_user_id fe = userId \<and> (if onlyActive then fe_is_active fe else True))
          (fixed_expenses d))"

text \<open>
  The \<open>updates\<close> object of \<open>updateFixedExpense\<close>: a field is \<open>None\<close> when the object has no
  such key. \<open>reminder_day: null\<close> is a key with the value \<open>null\<close>, \<open>Some None\<close>.
\<close>

record fe_updates =
  upd_typical_amount :: "rat option"
  upd_category_id :: "int option option"
  upd_reminder_day :: "int option option"
  upd_is_active :: "bool option"

definition no_updates :: fe_updates where
  "no_updates = \<lparr>upd_typical_amount = None, upd_category_id = None, upd_reminder_day = None,
                 upd_is_active = None\<rparr>"

definition apply_updates :: "fe_updates \<Rightarrow> fixed_expense \<Rightarrow> fixed_expense" where
  "apply_updates up fe =
     fe\<lparr>fe_typical_amount := (case upd_typical_amount up of Some a \<Rightarrow> a | None \<Rightarrow> fe_typical_amount fe),
        fe_category_id := (case upd_category_id up of Some c \<Rightarrow> c | None \<Rightarrow> fe_category_id fe),
        fe_reminder_day := (case upd_reminder_day up of Some r \<Rightarrow> r | None \<Rightarrow> fe_reminder_day fe),
        fe_is_active := (case upd_is_active up of Some a \<Rightarrow> a | None \<Rightarrow> fe_is_active fe)\<rparr>"

definition updateFixedExpense :: "int \<Rightarrow> int \<Rightarrow> fe_updates \<Rightarrow> db \<Rightarrow> fixed_expense option \<times> db" where
  "updateFixedExpense i userId updates d =
     (if updates = no_updates then (None, d)
      else (let hit = (\<lambda>fe. fe_id fe = i \<and> fe_user_id fe = userId);
                d' = d\<lparr>fixed_expenses :=
                         map (\<lambda>fe. if hit fe then apply_updates updates fe else fe) (fixed_expenses d)\<rparr>
            in (find hit (fixed_expenses d'), d')))"

definition findFixedExpenseByDescription :: "int \<Rightarrow> string \<Rightarrow> db \<Rightarrow> fixed_expense option" where
  \<comment> \<open>\<open>WHERE user_id = $1 AND LOWER(description) = LOWER($2)\<close>, first row\<close>
  "findFixedExpenseByDescription userId description d =
     find (\<lambda>fe. fe_user_id fe = userId \<and> toLowerCase (fe_description fe) = toLowerCase description)
       (fixed_expenses d)"

definition setPendingFixedExpense :: "int \<Rightarrow> int \<Rightarrow> db \<Rightarrow> db" where
  "setPendingFixedExpense userId fixedExpenseId d =
     update_user userId (\<lambda>u. u\<lparr>u_pending_fixed_expense_id := Some fixedExpenseId\<rparr>) d"

definition clearPendingFixedExpense :: "int \<Rightarrow> db \<Rightarrow> db" where
  "clearPendingFixedExpense userId d =
     update_user userId (\<lambda>u. u\<lparr>u_pending_fixed_expense_id := None\<rparr>) d"

definition getLastShownTxIds :: "int \<Rightarrow> db \<Rightarrow> int list option" where
  \<comment> \<open>the column holds the JSON text of the list; \<open>None\<close> is \<open>NULL\<close> (or a missing user row)\<close>
  "getLastShownTxIds userId d =
     (case find (\<lambda>u. u_id u = userId) (users d) of
        None \<Rightarrow> None
      | Some u \<Rightarrow> u_last_shown_tx_ids u)"

section \<open>Outbound messages\<close>

text \<open>
  Every \<open>sendWhatsApp\<close> call of the modelled code is one \<open>reply\<close>; the constructor says
  which message it is and carries the data the text is built from, not the wording. A
  \<open>FinancialHealthAlert\<close> carries the kind of alert, the category its own text names (only the
  category alert names one) and the tip appended to it.
  \<open>GenericError\<close> is the reply of the \<open>catch\<close> block of \<open>processUserMessage\<close>, which is
  where an exception thrown by a handler ends.
\<close>

datatype alert_type = HighSpending | SavingsRisk | CategoryHigh

datatype advice = ModelAdvice string | FallbackTip string

datatype budget_badge = BadgeOver | BadgeWarning | BadgeHalf | BadgeOk

datatype jsnum = Fin rat | PosInf | NegInf | NaN

datatype reply =
    NoActiveFixedExpenses
  | AllAlreadyRegistered "int list"
  | RegisteredFixed "int list" rat "int list"
  | AdjustAmountsPrompt
  | SkippedMonth
  | AccountDeleted
  | DeletionCancelled
  | DeletionReprompt
  | EditCancelled
  | TransactionDeleted int
  | TransactionNotFound
  | DescriptionUpdated string
  | DescriptionMissing
  | AmountUpdated int
  | EditOptionsReprompt
  | FixedEditCancelled
  | ReminderRemoved
  | ReminderDaySet int
  | FixedExpenseUpdated "int option" "int option"
  | FixedEditReprompt
  | NoRecentExpense
  | AskReminderDay
  | NothingToMark
  | ExpenseNotFoundForFixed
  | AlreadyFixed string
  | MarkedAsFixed string
  | AskEditIndex
  | AskDeleteIndex
  | NoSuchExpense int
  | ExpenseGone int
  | EditingExpense int int
  | DeletedExpense int int
  | IncomeUpdatePrompt rat int
  | IncomeUpdated int
  | IncomeKept rat
  | FinancialHealthAlert alert_type "string option" advice
  | BudgetExceeded string
  | BudgetWarning string rat
  | NoBudgets
  | BudgetStatusReport "(string \<times> rat \<times> rat \<times> rat \<times> budget_badge) list" rat rat jsnum
  | GenericError

section \<open>Monthly reminder: the bulk response\<close>

definition existingCheck :: "int \<Rightarrow> int \<Rightarrow> date \<Rightarrow> db \<Rightarrow> bool" where
  \<comment> \<open>a transaction of this fixed expense dated in the current month exists\<close>
  "existingCheck userId feId today d =
     list_ex (\<lambda>t. tx_user_id t = userId \<and> tx_fixed_expense_id t = Some feId \<and>
                   this_month today (tx_date t)) (transactions d)"

definition insert_fixed_transaction :: "int \<Rightarrow> fixed_expense \<Rightarrow> env \<Rightarrow> db \<Rightarrow> db" where
  \<comment> \<open>\<open>INSERT INTO transactions (...) VALUES ($1, $2, $3, $4, CURRENT_DATE, false, 'fixed', $5)\<close>\<close>
  "insert_fixed_transaction userId e ev d =
     d\<lparr>transactions := transactions d @
          [\<lparr>tx_id = transactions_seq d, tx_user_id = userId, tx_amount = fe_typical_amount e,
            tx_category_id = fe_category_id e, tx_description = fe_description e,
            tx_date = current_date ev, tx_is_income = False, tx_expense_type = Fixed,
            tx_fixed_expense_id = Some (fe_id e), tx_created_at = now_ms ev\<rparr>],
        transactions_seq := transactions_seq d + 1\<rparr>"

fun registerLoop ::
  "int \<Rightarrow> env \<Rightarrow> fixed_expense list \<Rightarrow> db \<Rightarrow> db \<times> fixed_expense list \<times> fixed_expense list" where
  \<comment> \<open>the \<open>for (const expense of fixedExpenses)\<close> loop: the store after it, the registered
      expenses and the skipped ones, each in the loop's order\<close>
  "registerLoop userId ev [] d = (d, [], [])"
| "registerLoop userId ev (e # es) d =
     (if existingCheck userId (fe_id e) (current_date ev) d
      then (case registerLoop userId ev es d of
              (d', registered, skipped) \<Rightarrow> (d', registered, e # skipped))
      else (case registerLoop userId ev es (insert_fixed_transaction userId e ev d) of
              (d', registered, skipped) \<Rightarrow> (d', e # registered, skipped)))"

definition is_register_all :: "string \<Rightarrow> bool" where
  "is_register_all msgLower =
     (str_includes msgLower ''registrar todos'' \<or> msgLower = ''registrar'' \<or> msgLower = ''todos'')"

definition handleFixedExpenseReminderResponse ::
  "user \<Rightarrow> string \<Rightarrow> env \<Rightarrow> db \<Rightarrow> bool \<times> db \<times> reply list" where
  "handleFixedExpenseReminderResponse usr message ev d =
     (let msgLower = trim (toLowerCase message)
      in if is_register_all msgLower then
           (let fixedExpenses = getFixedExpenses (u_id usr) True d
            in if fixedExpenses = []
               then (True, clearPendingFixedExpense (u_id usr) d, [NoActiveFixedExpenses])
               else (case registerLoop (u_id usr) ev fixedExpenses d of
                       (d1, registered, skipped) \<Rightarrow>
                         (True, clearPendingFixedExpense (u_id usr) d1,
                          if registered = [] \<and> skipped \<noteq> []
                          then [AllAlreadyRegistered (map fe_id skipped)]
                          else if registered \<noteq> []
                          then [RegisteredFixed (map fe_id registered)
                                  (sum_list (map fe_typical_amount registered)) (map fe_id skipped)]
                          else [])))
         else if str_includes msgLower ''ajustar'' \<or> str_includes msgLower ''modificar''
         then (True, clearPendingFixedExpense (u_id usr) d, [AdjustAmountsPrompt])
         else if str_includes msgLower ''saltar'' \<or> str_includes msgLower ''skip'' \<or> msgLower = ''no''
         then (True, clearPendingFixedExpense (u_id usr) d, [SkippedMonth])
         else (False, d, []))"

section \<open>Positional edit and delete\<close>

definition created_desc :: "txn \<Rightarrow> txn \<Rightarrow> bool" where
  \<comment> \<open>\<open>ORDER BY created_at DESC\<close>\<close>
  "created_desc a b = (tx_created_at a \<ge> tx_created_at b)"

definition month_list :: "int \<Rightarrow> date \<Rightarrow> db \<Rightarrow> int list" where
  \<comment> \<open>the fallback query: this month's transactions of the user, newest first, at most 20\<close>
  "month_list userId today d =
     map tx_id (take 20 (order_by created_desc
       (filter (\<lambda>t. tx_user_id t = userId \<and> this_month today (tx_date t)) (transactions d))))"

definition resolve_index :: "int \<Rightarrow> int \<Rightarrow> date \<Rightarrow> db \<Rightarrow> int option" where
  \<comment> \<open>which transaction id the index \<open>index \<ge> 1\<close> stands for (the same code in
      \<open>handleEditExpense\<close> and \<open>handleDeleteExpense\<close>); \<open>None\<close> is the reply "no such expense"\<close>
  "resolve_index userId index today d =
     (let fallback = (let rows = month_list userId today d
                      in if index > int (length rows) then None
                         else Some (rows ! nat (index - 1)))
      in case getLastShownTxIds userId d of
           Some lastShownIds \<Rightarrow>
             if index \<le> int (length lastShownIds) then Some (lastShownIds ! nat (index - 1))
             else fallback
         | None \<Rightarrow> fallback)"

definition tx_by_id :: "int \<Rightarrow> int \<Rightarrow> db \<Rightarrow> txn option" where
  \<comment> \<open>\<open>SELECT ... FROM transactions t WHERE t.id = $1 AND t.user_id = $2\<close>, first row\<close>
  "tx_by_id txId userId d = find (\<lambda>t. tx_id t = txId \<and> tx_user_id t = userId) (transactions d)"

definition delete_tx :: "int \<Rightarrow> int \<Rightarrow> db \<Rightarrow> db" where
  \<comment> \<open>\<open>DELETE FROM transactions WHERE id = $1 AND user_id = $2\<close>\<close>
  "delete_tx txId userId d =
     d\<lparr>transactions := filter (\<lambda>t. \<not> (tx_id t = txId \<and> tx_user_id t = userId)) (transactions d)\<rparr>"

definition pending_transaction_edit :: "int \<Rightarrow> int" where
  \<comment> \<open>the value stored while a transaction is being edited: \<open>-2000 - tx.id\<close>\<close>
  "pending_transaction_edit txId = - 2000 - txId"

definition handleEditExpense :: "user \<Rightarrow> int option \<Rightarrow> env \<Rightarrow> db \<Rightarrow> db \<times> reply list" where
  \<comment> \<open>\<open>index\<close> is \<open>data.index\<close>; \<open>None\<close> when the classifier gave none\<close>
  "handleEditExpense usr index ev d =
     (case index of
        None \<Rightarrow> (d, [AskEditIndex])
      | Some i \<Rightarrow>
          if i < 1 then (d, [AskEditIndex])
          else (case resolve_index (u_id usr) i (current_date ev) d of
                  None \<Rightarrow> (d, [NoSuchExpense i])
                | Some txId \<Rightarrow>
                    (case tx_by_id txId (u_id usr) d of
                       None \<Rightarrow> (d, [ExpenseGone i])
                     | Some tx \<Rightarrow>
                         (setPendingFixedExpense (u_id usr) (pending_transaction_edit (tx_id tx)) d,
                          [EditingExpense i (tx_id tx)]))))"

definition handleDeleteExpense :: "user \<Rightarrow> int option \<Rightarrow> env \<Rightarrow> db \<Rightarrow> db \<times> reply list" where
  "handleDeleteExpense usr index ev d =
     (case index of
        None \<Rightarrow> (d, [AskDeleteIndex])
      | Some i \<Rightarrow>
          if i < 1 then (d, [AskDeleteIndex])
          else (case resolve_index (u_id usr) i (current_date ev) d of
                  None \<Rightarrow> (d, [NoSuchExpense i])
                | Some txId \<Rightarrow>
                    (case tx_by_id txId (u_id usr) d of
                       None \<Rightarrow> (d, [ExpenseGone i])
                     | Some tx \<Rightarrow>
                         (delete_tx (tx_id tx) (u_id usr) d, [DeletedExpense i (tx_id tx)]))))"

section \<open>Marking a transaction as a fixed expense\<close>

definition recent_variable_expense :: "int \<Rightarrow> int \<Rightarrow> db \<Rightarrow> int option" where
  \<comment> \<open>the newest variable expense of the user created in the last 10 minutes\<close>
  "recent_variable_expense userId now d =
     (case order_by created_desc
             (filter (\<lambda>t. tx_user_id t = userId \<and> \<not> tx_is_income t \<and> tx_expense_type t = Variable \<and>
                           tx_created_at t \<ge> now - 600000) (transactions d)) of
        [] \<Rightarrow> None
      | t # _ \<Rightarrow> Some (tx_id t))"

definition link_transaction :: "int \<Rightarrow> int \<Rightarrow> db \<Rightarrow> db" where
  \<comment> \<open>\<open>UPDATE transactions SET expense_type = 'fixed', fixed_expense_id = $2 WHERE id = $3\<close>\<close>
  "link_transaction feId txId d =
     d\<lparr>transactions :=
          map (\<lambda>t. if tx_id t = txId
                    then t\<lparr>tx_expense_type := Fixed, tx_fixed_expense_id := Some feId\<rparr> else t)
            (transactions d)\<rparr>"

definition mark_found_transaction :: "user \<Rightarrow> int \<Rightarrow> db \<Rightarrow> db \<times> reply list" where
  \<comment> \<open>\<open>handleMarkAsFixed\<close> once the transaction id is known\<close>
  "mark_found_transaction usr transactionId d =
     (case tx_by_id transactionId (u_id usr) d of
        None \<Rightarrow> (clearPendingFixedExpense (u_id usr) d, [ExpenseNotFoundForFixed])
      | Some tx \<Rightarrow>
          (let existingFixed = findFixedExpenseByDescription (u_id usr) (tx_description tx) d;
               finish = (\<lambda>fixedExpense d1.
                  (setPendingFixedExpense (u_id usr) (fe_id fixedExpense)
                     (link_transaction (fe_id fixedExpense) transactionId d1),
                   [MarkedAsFixed (tx_description tx)]))
           in case existingFixed of
                Some fe \<Rightarrow>
                  if fe_is_active fe
                  then (clearPendingFixedExpense (u_id usr) d, [AlreadyFixed (tx_description tx)])
                  else (case updateFixedExpense (fe_id fe) (u_id usr)
                               (no_updates\<lparr>upd_typical_amount := Some (tx_amount tx),
                                            upd_is_active := Some True\<rparr>) d of
                          (Some fixedExpense, d1) \<Rightarrow> finish fixedExpense d1
                        | (None, d1) \<Rightarrow> (d1, [GenericError]))
              | None \<Rightarrow>
                  (if tx_description tx \<noteq> []
                   then (case createFixedExpense (u_id usr) (tx_description tx) (tx_amount tx)
                                (tx_category_id tx) None d of
                           (fixedExpense, d1) \<Rightarrow> finish fixedExpense d1)
                   else (case category_of d (tx_category_id tx) of
                           Some c \<Rightarrow>
                             (case createFixedExpense (u_id usr) (c_name c) (tx_amount tx)
                                     (tx_category_id tx) None d of
                                (fixedExpense, d1) \<Rightarrow> finish fixedExpense d1)
                         | None \<Rightarrow> (d, [GenericError])))))"

definition handleMarkAsFixed :: "user \<Rightarrow> env \<Rightarrow> db \<Rightarrow> db \<times> reply list" where
  "handleMarkAsFixed usr ev d =
     (let recent = (case recent_variable_expense (u_id usr) (now_ms ev) d of
                      None \<Rightarrow> (d, [NoRecentExpense])
                    | Some transactionId \<Rightarrow> mark_found_transaction usr transactionId d)
      in case u_pending_fixed_expense_id usr of
           None \<Rightarrow> recent
         | Some pendingId \<Rightarrow>
             if pendingId = 0 then recent
             else if pendingId < 0 \<and> pendingId \<noteq> - 999
             then mark_found_transaction usr \<bar>pendingId\<bar> d
             else if pendingId > 0 then (d, [AskReminderDay])
             else (d, [NothingToMark]))"

section \<open>The router: pending actions\<close>

text \<open>
  \<open>processUserMessage\<close> from its step 3.5 to the call of the classifier: the branches on
  \<open>user.pending_fixed_expense_id\<close>, in the order of the source. Each branch body is a
  definition of its own. A message that no branch answers goes on to the classifier
  (\<open>Classify\<close>, with the store as the branches left it).
\<close>

datatype outcome = Replied db "reply list" | Classify db

definition deleteUser :: "string \<Rightarrow> db \<Rightarrow> db" where
  "deleteUser phone d =
     (case find (\<lambda>u. u_phone u = phone) (users d) of
        None \<Rightarrow> d
      | Some u \<Rightarrow>
          (let userId = u_id u
           in d\<lparr>transactions := filter (\<lambda>t. tx_user_id t \<noteq> userId) (transactions d),
                fixed_expenses := filter (\<lambda>fe. fe_user_id fe \<noteq> userId) (fixed_expenses d),
                budgets := filter (\<lambda>b. b_user_id b \<noteq> userId) (budgets d),
                financial_alerts := filter (\<lambda>a. fa_user_id a \<noteq> userId) (financial_alerts d),
                users := filter (\<lambda>x. u_id x \<noteq> userId) (users d)\<rparr>))"

definition accountDeletionBranch :: "user \<Rightarrow> string \<Rightarrow> db \<Rightarrow> outcome" where
  \<comment> \<open>step 3.5.5, \<open>pending_fixed_expense_id === -998\<close>\<close>
  "accountDeletionBranch usr message d =
     (let msgLower = trim (toLowerCase message)
      in if msgLower = ''confirmar eliminar'' \<or> msgLower = ''confirmar'' \<or> msgLower = ''si eliminar''
         then Replied (deleteUser (u_phone usr) d) [AccountDeleted]
         else if msgLower = ''cancelar'' \<or> msgLower = ''no''
         then Replied (clearPendingFixedExpense (u_id usr) d) [DeletionCancelled]
         else Replied d [DeletionReprompt])"

definition is_desc_command :: "string \<Rightarrow> bool" where
  \<comment> \<open>\<open>desc:\<close>, \<open>descripcion:\<close> or the same with an accented o (the code unit 0xF3)\<close>
  "is_desc_command msgLower =
     (startsWith msgLower ''desc:'' \<or> startsWith msgLower ''descripcion:'' \<or>
      startsWith msgLower (''descripci'' @ [CHR 0xF3] @ ''n:''))"

definition transactionEditBranch :: "user \<Rightarrow> int \<Rightarrow> string \<Rightarrow> db \<Rightarrow> outcome" where
  \<comment> \<open>step 3.5.6, \<open>pending_fixed_expense_id < -2000\<close>; \<open>pendingId\<close> is that value\<close>
  "transactionEditBranch usr pendingId message d =
     (let msgLower = trim (toLowerCase message);
          transactionId = \<bar>pendingId + 2000\<bar>
      in if msgLower = ''cancelar''
         then Replied (clearPendingFixedExpense (u_id usr) d) [EditCancelled]
         else if msgLower = ''eliminar'' \<or> msgLower = ''borrar''
         then (case tx_by_id transactionId (u_id usr) d of
                 Some tx \<Rightarrow>
                   Replied (clearPendingFixedExpense (u_id usr) (delete_tx transactionId (u_id usr) d))
                     [TransactionDeleted transactionId]
               | None \<Rightarrow> Replied (clearPendingFixedExpense (u_id usr) d) [TransactionNotFound])
         else if is_desc_command msgLower
         then (let newDesc = trim (drop 1 (dropWhile (\<lambda>c. c \<noteq> CHR '':'') message))
               in if newDesc \<noteq> []
                  then Replied
                         (clearPendingFixedExpense (u_id usr)
                            (d\<lparr>transactions :=
                                 map (\<lambda>t. if tx_id t = transactionId \<and> tx_user_id t = u_id usr
                                           then t\<lparr>tx_description := newDesc\<rparr> else t)
                                   (transactions d)\<rparr>))
                         [DescriptionUpdated newDesc]
                  else Replied d [DescriptionMissing])
         else (case extractAmount message of
                 Some newAmount \<Rightarrow>
                   if newAmount > 0
                   then Replied
                          (clearPendingFixedExpense (u_id usr)
                             (d\<lparr>transactions :=
                                  map (\<lambda>t. if tx_id t = transactionId \<and> tx_user_id t = u_id usr
                                            then t\<lparr>tx_amount := of_int newAmount\<rparr> else t)
                                    (transactions d)\<rparr>))
                          [AmountUpdated newAmount]
                   else Replied d [EditOptionsReprompt]
               | None \<Rightarrow> Replied d [EditOptionsReprompt]))"

definition isJustADay :: "string \<Rightarrow> bool" where
  \<comment> \<open>\<open>/^\d{1,2}$/.test(msgLower) && day !== null\<close>\<close>
  "isJustADay message =
     (pat_only_number (trim (toLowerCase message)) \<noteq> None \<and> extractReminderDay message \<noteq> None)"

definition edit_updates :: "string \<Rightarrow> int option \<times> int option" where
  \<comment> \<open>the \<open>amount\<close> and the \<open>day\<close> read from the message; a number that is 0 is falsy in the
      tests \<open>if (amount)\<close> and \<open>if (day)\<close> and is left out here\<close>
  "edit_updates message =
     (let day = extractReminderDay message;
          amount = (if isJustADay message then None else extractAmount message)
      in (if amount = Some 0 then None else amount, if day = Some 0 then None else day))"

definition fixedExpenseEditBranch :: "user \<Rightarrow> int \<Rightarrow> string \<Rightarrow> db \<Rightarrow> outcome" where
  \<comment> \<open>step 3.6, \<open>pending_fixed_expense_id > 0\<close>; \<open>pendingId\<close> is the fixed expense's id\<close>
  "fixedExpenseEditBranch usr pendingId message d =
     (let msgLower = trim (toLowerCase message)
      in if msgLower \<in> set [''cancelar'', ''saltar'', ''skip'', ''omitir'']
         then Replied (clearPendingFixedExpense (u_id usr) d) [FixedEditCancelled]
         else if str_includes msgLower ''sin recordatorio'' \<or> str_includes msgLower ''quitar recordatorio'' \<or>
                 str_includes msgLower ''sin dia'' \<or> str_includes msgLower (''sin d'' @ [CHR 0xED] @ ''a'') \<or>
                 str_includes msgLower ''quitar dia'' \<or>
                 str_includes msgLower (''quitar d'' @ [CHR 0xED] @ ''a'')
         then Replied
                (clearPendingFixedExpense (u_id usr)
                   (snd (updateFixedExpense pendingId (u_id usr)
                           (no_updates\<lparr>upd_reminder_day := Some None\<rparr>) d)))
                [ReminderRemoved]
         else (case edit_updates message of
                 (None, None) \<Rightarrow> Replied d [FixedEditReprompt]
               | (amount, day) \<Rightarrow>
                   Replied
                     (clearPendingFixedExpense (u_id usr)
                        (snd (updateFixedExpense pendingId (u_id usr)
                                (no_updates\<lparr>upd_typical_amount := map_option of_int amount,
                                             upd_reminder_day := map_option Some day\<rparr>) d)))
                     [case (amount, day) of
                        (None, Some dy) \<Rightarrow> ReminderDaySet dy
                      | _ \<Rightarrow> FixedExpenseUpdated amount day]))"

definition pending_mark_as_fixed :: "int \<Rightarrow> int" where
  \<comment> \<open>the value \<open>handleTransaction\<close> stores with its suggestion: \<open>-transactionId\<close>\<close>
  "pending_mark_as_fixed transactionId = - transactionId"

definition remember_rejection :: "user \<Rightarrow> int \<Rightarrow> db \<Rightarrow> db" where
  \<comment> \<open>step 3.7 when the answer is not "fijo": an inactive fixed expense for the transaction's
      description (\<open>ON CONFLICT DO NOTHING\<close>; the table of migration 001 has no unique
      constraint besides its key), and the pending action cleared\<close>
  "remember_rejection usr pendingId d =
     (let d1 = (case find (\<lambda>t. tx_id t = \<bar>pendingId\<bar>) (transactions d) of
                  Some tx \<Rightarrow>
                    d\<lparr>fixed_expenses := fixed_expenses d @
                         [\<lparr>fe_id = fixed_expenses_seq d, fe_user_id = u_id usr,
                           fe_description = tx_description tx, fe_typical_amount = tx_amount tx,
                           fe_category_id = tx_category_id tx, fe_reminder_day = None,
                           fe_is_active = False\<rparr>],
                       fixed_expenses_seq := fixed_expenses_seq d + 1\<rparr>
                | None \<Rightarrow> d)
      in clearPendingFixedExpense (u_id usr) d1)"

definition markAsFixedBranch :: "user \<Rightarrow> int \<Rightarrow> string \<Rightarrow> env \<Rightarrow> db \<Rightarrow> outcome" where
  \<comment> \<open>step 3.7, \<open>pending_fixed_expense_id < 0\<close> and not \<open>-999\<close>\<close>
  "markAsFixedBranch usr pendingId message ev d =
     (let msgLower = trim (toLowerCase message)
      in if msgLower \<in> set [''fijo'', ''es fijo'', ''si fijo'', ''s'' @ [CHR 0xED] @ '' fijo'',
                              ''hacerlo fijo'', ''si'', ''s'' @ [CHR 0xED]]
         then (case handleMarkAsFixed usr ev d of (d', rs) \<Rightarrow> Replied d' rs)
         else Classify (remember_rejection usr pendingId d))"

definition processUserMessage :: "user \<Rightarrow> string \<Rightarrow> env \<Rightarrow> db \<Rightarrow> outcome" where
  \<comment> \<open>\<open>usr\<close> is the row \<open>getOrCreateUser\<close> loaded; onboarding is complete and the message is
      no answer to an income prompt (steps 1 to 3 are passed)\<close>
  "processUserMessage usr message ev d =
     (let pending = u_pending_fixed_expense_id usr;
          reminder = (if pending = Some (- 999)
                      then handleFixedExpenseReminderResponse usr message ev d
                      else (False, d, []))
      in case reminder of
           (True, d', rs) \<Rightarrow> Replied d' rs
         | (False, _, _) \<Rightarrow>
             if pending = Some (- 998) then accountDeletionBranch usr message d
             else (case pending of
                     None \<Rightarrow> Classify d
                   | Some p \<Rightarrow>
                       if p \<noteq> 0 \<and> p < - 2000 then transactionEditBranch usr p message d
                       else if p \<noteq> 0 \<and> p > 0 then fixedExpenseEditBranch usr p message d
                       else if p \<noteq> 0 \<and> p < 0 \<and> p \<noteq> - 999
                       then markAsFixedBranch usr p message ev d
                       else Classify d))"

section \<open>Income\<close>

definition MIN_MONTHS_HISTORY :: nat where "MIN_MONTHS_HISTORY = 2"
definition DIFF_THRESHOLD_PERCENT :: rat where "DIFF_THRESHOLD_PERCENT = 20"
definition COOLDOWN_DAYS_NORMAL :: rat where "COOLDOWN_DAYS_NORMAL = 30"
definition COOLDOWN_DAYS_DECLINED :: rat where "COOLDOWN_DAYS_DECLINED = 60"

definition monthly_totals :: "int \<Rightarrow> date \<Rightarrow> db \<Rightarrow> rat list" where
  \<comment> \<open>the subquery \<open>monthly_totals\<close>: the income of each of the three months before the
      current one (\<open>GROUP BY date_trunc('month', date)\<close>), the months whose sum is positive\<close>
  "monthly_totals userId today d =
     (let rows = filter (\<lambda>t. tx_user_id t = userId \<and> tx_is_income t \<and>
                              date_le (minus_months (month_start today) 3) (tx_date t) \<and>
                              date_lt (tx_date t) (month_start today)) (transactions d);
          month_of = (\<lambda>t. (year (tx_date t), month (tx_date t)));
          months = remdups (map month_of rows)
      in filter (\<lambda>total. total > 0)
           (map (\<lambda>m. sum_amounts (filter (\<lambda>t. month_of t = m) rows)) months))"

definition avg_income :: "int \<Rightarrow> date \<Rightarrow> db \<Rightarrow> rat" where
  \<comment> \<open>\<open>COALESCE(AVG(monthly_total), 0)\<close>\<close>
  "avg_income userId today d =
     (let totals = monthly_totals userId today d
      in if totals = [] then 0 else sum_list totals / of_nat (length totals))"

definition months_with_income :: "int \<Rightarrow> date \<Rightarrow> db \<Rightarrow> nat" where
  \<comment> \<open>\<open>COUNT(*)\<close> of the same subquery\<close>
  "months_with_income userId today d = length (monthly_totals userId today d)"

definition getEffectiveMonthlyIncome :: "user \<Rightarrow> env \<Rightarrow> db \<Rightarrow> rat" where
  "getEffectiveMonthlyIncome usr ev d =
     (let currentIncome = sum_amounts (filter (\<lambda>t. tx_user_id t = u_id usr \<and> tx_is_income t \<and>
                                                   this_month (current_date ev) (tx_date t))
                                          (transactions d));
          avgLast3Months = avg_income (u_id usr) (current_date ev) d;
          baseIncome = max (u_monthly_income usr) avgLast3Months
      in if currentIncome > 0 then max baseIncome currentIncome else baseIncome)"

definition checkIncomeUpdatePrompt :: "user \<Rightarrow> env \<Rightarrow> db \<Rightarrow> db \<times> reply list" where
  "checkIncomeUpdatePrompt usr ev d =
     (let on_cooldown =
            (case u_last_income_update_prompt usr of
               None \<Rightarrow> False
             | Some t \<Rightarrow>
                 (let daysSinceLastPrompt = (of_int (now_ms ev - t) :: rat) / (1000 * 60 * 60 * 24);
                      cooldownDays = (if u_income_update_declined usr then COOLDOWN_DAYS_DECLINED
                                      else COOLDOWN_DAYS_NORMAL)
                  in daysSinceLastPrompt < cooldownDays));
          avgIncome = avg_income (u_id usr) (current_date ev) d;
          monthsWithIncome = months_with_income (u_id usr) (current_date ev) d;
          currentIncome = u_monthly_income usr;
          percentDiff = \<bar>(avgIncome - currentIncome) / currentIncome * 100\<bar>
      in if on_cooldown then (d, [])
         else if monthsWithIncome < MIN_MONTHS_HISTORY then (d, [])
         else if currentIncome \<le> 0 then (d, [])
         else if percentDiff < DIFF_THRESHOLD_PERCENT then (d, [])
         else (update_user (u_id usr) (\<lambda>u. u\<lparr>u_last_income_update_prompt := Some (now_ms ev)\<rparr>) d,
               [IncomeUpdatePrompt currentIncome (round avgIncome)]))"

definition handleIncomeUpdateResponse :: "user \<Rightarrow> bool \<Rightarrow> env \<Rightarrow> db \<Rightarrow> db \<times> reply list" where
  "handleIncomeUpdateResponse usr accepted ev d =
     (if accepted
      then (let newIncome = round (avg_income (u_id usr) (current_date ev) d)
            in (update_user (u_id usr)
                  (\<lambda>u. u\<lparr>u_monthly_income := of_int newIncome, u_income_update_declined := False\<rparr>) d,
                [IncomeUpdated newIncome]))
      else (update_user (u_id usr) (\<lambda>u. u\<lparr>u_income_update_declined := True\<rparr>) d,
            [IncomeKept (u_monthly_income usr)]))"

section \<open>Budget and alert engine\<close>

subsection \<open>Division as JavaScript does it\<close>

definition js_div :: "rat \<Rightarrow> rat \<Rightarrow> jsnum" where
  \<comment> \<open>\<open>a / b\<close> on finite numbers: a zero divisor gives an infinity or \<open>NaN\<close>\<close>
  "js_div a b =
     (if b \<noteq> 0 then Fin (a / b)
      else if a > 0 then PosInf else if a < 0 then NegInf else NaN)"

fun js_times :: "jsnum \<Rightarrow> rat \<Rightarrow> jsnum" where
  \<comment> \<open>\<open>x * k\<close> for a positive constant \<open>k\<close>\<close>
  "js_times (Fin x) k = Fin (x * k)"
| "js_times PosInf k = PosInf"
| "js_times NegInf k = NegInf"
| "js_times NaN k = NaN"

fun js_gt :: "jsnum \<Rightarrow> rat \<Rightarrow> bool" where
  \<comment> \<open>\<open>x > r\<close>: every comparison with \<open>NaN\<close> is false\<close>
  "js_gt (Fin x) r = (x > r)"
| "js_gt PosInf r = True"
| "js_gt NegInf r = False"
| "js_gt NaN r = False"

subsection \<open>Financial health\<close>

definition has_alert_today :: "int \<Rightarrow> date \<Rightarrow> db \<Rightarrow> bool" where
  \<comment> \<open>\<open>alertCheck.rows.length > 0\<close>\<close>
  "has_alert_today userId today d =
     list_ex (\<lambda>a. fa_user_id a = userId \<and> fa_alert_type a = ''financial_health'' \<and>
                   fa_alert_date a = today) (financial_alerts d)"

definition insert_financial_alert :: "int \<Rightarrow> string \<Rightarrow> date \<Rightarrow> db \<Rightarrow> db" where
  \<comment> \<open>Modelled from the spec: the declaration of the table \<open>financial_alerts\<close> is not among
      the sources. FinancialAlert is "one row per (user, alert type, calendar day)": the
      \<open>INSERT\<close> names no date, so \<open>alert_date\<close> is the current date, and \<open>ON CONFLICT
      (user_id, alert_type, alert_date) DO NOTHING\<close> leaves an existing row alone.\<close>
  "insert_financial_alert userId ty today d =
     (if list_ex (\<lambda>a. fa_user_id a = userId \<and> fa_alert_type a = ty \<and> fa_alert_date a = today)
           (financial_alerts d)
      then d
      else d\<lparr>financial_alerts := financial_alerts d @
                [\<lparr>fa_user_id = userId, fa_alert_type = ty, fa_alert_date = today\<rparr>]\<rparr>)"

definition spentResult :: "int \<Rightarrow> date \<Rightarrow> db \<Rightarrow> (string \<times> string \<times> rat) list" where
  \<comment> \<open>this month's expenses by category (\<open>JOIN categories\<close>, \<open>GROUP BY c.id\<close>), largest first:
      name, emoji and total of each category that has a transaction\<close>
  "spentResult userId today d =
     (let rows = filter (\<lambda>t. tx_user_id t = userId \<and> this_month today (tx_date t) \<and> \<not> tx_is_income t)
                   (transactions d);
          of_cat = (\<lambda>c. filter (\<lambda>t. tx_category_id t = Some (c_id c)) rows)
      in order_by (\<lambda>a b. snd (snd a) \<ge> snd (snd b))
           (map (\<lambda>c. (c_name c, c_emoji c, sum_amounts (of_cat c)))
              (filter (\<lambda>c. of_cat c \<noteq> []) (categories d))))"

definition generateFinancialAdvice :: "string option \<Rightarrow> string \<Rightarrow> advice" where
  \<comment> \<open>\<open>llm\<close> is the text the external model answered, \<open>None\<close> when the call failed or its
      content was empty: then the tip is the template that names the top category\<close>
  "generateFinancialAdvice llm topCategory =
     (case llm of Some t \<Rightarrow> ModelAdvice t | None \<Rightarrow> FallbackTip topCategory)"

definition choose_alert :: "rat \<Rightarrow> rat \<Rightarrow> rat \<Rightarrow> rat \<Rightarrow> rat \<Rightarrow> date \<Rightarrow> alert_type option" where
  \<comment> \<open>the three conditions in the order of the source; a later one only counts while
      \<open>shouldAlert\<close> is still false\<close>
  "choose_alert income savingsGoal totalSpent spendingBudget topTotal today =
     (let percentageUsed = (totalSpent / spendingBudget) * 100;
          dayOfMonth = dom today;
          daysInMonth = days_in_month (year today) (month today);
          projectedTotal = round ((totalSpent / of_int dayOfMonth) * of_int daysInMonth);
          projectedSavings = round (income - of_int projectedTotal);
          topCategoryPercentage = js_times (js_div topTotal income) 100
      in if percentageUsed > 70 \<and> percentageUsed < 100 then Some HighSpending
         else if of_int projectedSavings < savingsGoal * (8 / 10) then Some SavingsRisk
         else if js_gt topCategoryPercentage 30 then Some CategoryHigh
         else None)"

definition checkFinancialHealth :: "user \<Rightarrow> string option \<Rightarrow> env \<Rightarrow> db \<Rightarrow> db \<times> reply list" where
  "checkFinancialHealth usr llm ev d =
     (let income = getEffectiveMonthlyIncome usr ev d;
          savingsGoal = u_savings_goal usr;
          spendingBudget = income - savingsGoal
      in if has_alert_today (u_id usr) (current_date ev) d then (d, [])
         else (case spentResult (u_id usr) (current_date ev) d of
                 [] \<Rightarrow> (d, [])
               | topCategory # others \<Rightarrow>
                   (let totalSpent = sum_list (map (\<lambda>r. snd (snd r)) (topCategory # others))
                    in if spendingBudget \<le> 0 then (d, [])
                       else (case choose_alert income savingsGoal totalSpent spendingBudget
                                     (snd (snd topCategory)) (local_date ev) of
                               None \<Rightarrow> (d, [])
                             | Some alertType \<Rightarrow>
                                 (insert_financial_alert (u_id usr) ''financial_health''
                                    (current_date ev) d,
                                  [FinancialHealthAlert alertType
                                     (if alertType = CategoryHigh then Some (fst topCategory)
                                      else None)
                                     (generateFinancialAdvice llm (fst topCategory))])))))"

subsection \<open>Budgets\<close>

definition spent_in_category :: "int \<Rightarrow> int \<Rightarrow> date \<Rightarrow> db \<Rightarrow> rat" where
  \<comment> \<open>this month's expenses of the user in one category (0 when there is none)\<close>
  "spent_in_category userId categoryId today d =
     sum_amounts (filter (\<lambda>t. tx_user_id t = userId \<and> tx_category_id t = Some categoryId \<and>
                               this_month today (tx_date t) \<and> \<not> tx_is_income t) (transactions d))"

definition budget_rows :: "int \<Rightarrow> db \<Rightarrow> (budget \<times> category) list" where
  \<comment> \<open>\<open>FROM budgets b JOIN categories c ON b.category_id = c.id WHERE b.user_id = $1\<close>\<close>
  "budget_rows userId d =
     concat (map (\<lambda>b. map (\<lambda>c. (b, c)) (filter (\<lambda>c. c_id c = b_category_id b) (categories d)))
               (filter (\<lambda>b. b_user_id b = userId) (budgets d)))"

definition budget_line :: "int \<Rightarrow> date \<Rightarrow> db \<Rightarrow> budget \<times> category \<Rightarrow> string \<times> rat \<times> rat \<times> rat \<times> budget_badge" where
  \<comment> \<open>one pass of the loop of \<open>handleBudgetStatus\<close>: name, limit, spent, percentage, badge\<close>
  "budget_line userId today d bc =
     (let limit = b_monthly_limit (fst bc);
          spent = spent_in_category userId (b_category_id (fst bc)) today d;
          percentage = (if limit > 0 then (spent / limit) * 100 else 0)
      in (c_name (snd bc), limit, spent, percentage,
          if percentage \<ge> 100 then BadgeOver
          else if percentage \<ge> 80 then BadgeWarning
          else if percentage \<ge> 50 then BadgeHalf else BadgeOk))"

definition handleBudgetStatus :: "user \<Rightarrow> env \<Rightarrow> db \<Rightarrow> reply list" where
  "handleBudgetStatus usr ev d =
     (let budgetsResult = order_by (\<lambda>a b. string_le (c_name (snd a)) (c_name (snd b)))
                            (budget_rows (u_id usr) d)
      in if budgetsResult = [] then [NoBudgets]
         else (let budget_lines = map (budget_line (u_id usr) (current_date ev) d) budgetsResult;
                   totalBudget = sum_list (map (\<lambda>l. fst (snd l)) budget_lines);
                   totalSpent = sum_list (map (\<lambda>l. fst (snd (snd l))) budget_lines)
               in [BudgetStatusReport budget_lines totalBudget totalSpent
                     (js_times (js_div totalSpent totalBudget) 100)]))"

definition checkBudgetAlerts :: "user \<Rightarrow> int \<Rightarrow> env \<Rightarrow> db \<Rightarrow> reply list" where
  "checkBudgetAlerts usr categoryId ev d =
     (case filter (\<lambda>bc. b_category_id (fst bc) = categoryId) (budget_rows (u_id usr) d) of
        [] \<Rightarrow> []
      | bc # _ \<Rightarrow>
          (let budget = b_monthly_limit (fst bc);
               spent = spent_in_category (u_id usr) categoryId (current_date ev) d
           in if budget \<le> 0 then []
              else (let percentage = (spent / budget) * 100
                    in if percentage \<ge> 100 then [BudgetExceeded (c_name (snd bc))]
                       else if percentage \<ge> 80 then [BudgetWarning (c_name (snd bc)) percentage]
                       else [])))"

section \<open>Sample data\<close>

text \<open>Concrete rows on which the theorems below are run.\<close>

definition sample_user :: user where
  "sample_user =
     \<lparr>u_id = 1, u_phone = ''56911111111'', u_name = ''Ana'', u_monthly_income = 800000,
      u_savings_goal = 100000, u_onboarding_complete = True, u_last_income_update_prompt = None,
      u_income_update_declined = False, u_pending_fixed_expense_id = None,
      u_last_shown_tx_ids = None\<rparr>"

definition sample_env :: env where
  "sample_env =
     \<lparr>now_ms = 1770700000000, current_date = \<lparr>year = 2026, month = 2, dom = 10\<rparr>,
      local_date = \<lparr>year = 2026, month = 2, dom = 10\<rparr>\<rparr>"

definition empty_db :: db where
  "empty_db =
     \<lparr>users = [sample_user], transactions = [], fixed_expenses = [], budgets = [],
      categories = [\<lparr>c_id = 3, c_name = ''arriendo'', c_emoji = ''casa''\<rparr>],
      financial_alerts = [], transactions_seq = 1, fixed_expenses_seq = 1\<rparr>"

definition sample_fixed :: fixed_expense where
  "sample_fixed =
     \<lparr>fe_id = 7, fe_user_id = 1, fe_description = ''Arriendo'', fe_typical_amount = 450000,
      fe_category_id = Some 3, fe_reminder_day = None, fe_is_active = True\<rparr>"

definition expense :: "int \<Rightarrow> string \<Rightarrow> rat \<Rightarrow> int \<Rightarrow> txn" where
  \<comment> \<open>a variable expense of the sample user, dated 10 February 2026\<close>
  "expense i description amount created =
     \<lparr>tx_id = i, tx_user_id = 1, tx_amount = amount, tx_category_id = Some 3,
      tx_description = description, tx_date = \<lparr>year = 2026, month = 2, dom = 10\<rparr>,
      tx_is_income = False, tx_expense_type = Variable, tx_fixed_expense_id = None,
      tx_created_at = created\<rparr>"

definition suggested_user :: user where
  \<comment> \<open>the sample user after \<open>handleTransaction\<close> suggested to make transaction 2001 fixed\<close>
  "suggested_user = sample_user\<lparr>u_pending_fixed_expense_id := Some (- 2001)\<rparr>"

definition suggestion_db :: db where
  "suggestion_db =
     empty_db\<lparr>users := [suggested_user],
              transactions := [expense 1 ''almuerzo'' 5000 1770000000000,
                               expense 2001 ''netflix'' 8990 1770699990000],
              transactions_seq := 2002\<rparr>"

definition reminded_db :: db where
  \<comment> \<open>the sample user has one active fixed expense and was sent the monthly reminder\<close>
  "reminded_db =
     empty_db\<lparr>users := [sample_user\<lparr>u_pending_fixed_expense_id := Some (- 999)\<rparr>],
              fixed_expenses := [sample_fixed]\<rparr>"

definition scenario_db :: db where
  \<comment> \<open>expenses of 560000 this month, all in one category\<close>
  "scenario_db =
     empty_db\<lparr>transactions := [expense 1 ''arriendo febrero'' 450000 1770000000000,
                                expense 2 ''gastos comunes'' 110000 1770600000000],
              transactions_seq := 3\<rparr>"

definition shown_user :: user where
  \<comment> \<open>the sample user after a list with the single transaction 5 was shown\<close>
  "shown_user = sample_user\<lparr>u_last_shown_tx_ids := Some [5]\<rparr>"

definition shown_db :: db where
  \<comment> \<open>transactions 7 and 8 were stored after that list was shown\<close>
  "shown_db =
     empty_db\<lparr>users := [shown_user],
              transactions := [expense 5 ''almuerzo'' 5000 1770000000000,
                               expense 7 ''taxi'' 3000 1770100000000,
                               expense 8 ''cafe'' 2000 1770200000000],
              transactions_seq := 9\<rparr>"

definition zero_budget_db :: db where
  \<comment> \<open>a budget of 0 for the only category, nothing spent\<close>
  "zero_budget_db = empty_db\<lparr>budgets := [\<lparr>b_user_id = 1, b_category_id = 3, b_monthly_limit = 0\<rparr>]\<rparr>"

definition salary :: "int \<Rightarrow> rat \<Rightarrow> date \<Rightarrow> txn" where
  \<comment> \<open>an income of the sample user\<close>
  "salary i amount day =
     \<lparr>tx_id = i, tx_user_id = 1, tx_amount = amount, tx_category_id = None,
      tx_description = ''sueldo'', tx_date = day, tx_is_income = True,
      tx_expense_type = Variable, tx_fixed_expense_id = None, tx_created_at = 0\<rparr>"

definition raise_user :: user where
  "raise_user = sample_user\<lparr>u_monthly_income := 500000\<rparr>"

definition raise_db :: db where
  \<comment> \<open>declared income 500000; 600000 and 700000 earned in the two months before February\<close>
  "raise_db =
     empty_db\<lparr>users := [raise_user],
              transactions := [salary 1 600000 \<lparr>year = 2025, month = 12, dom = 30\<rparr>,
                               salary 2 700000 \<lparr>year = 2026, month = 1, dom = 30\<rparr>],
              transactions_seq := 3\<rparr>"

definition netflix_db :: db where
  \<comment> \<open>the user has the active fixed expense "Netflix" and has just stored the expense
      "NETFLIX", for which the suggestion is pending\<close>
  "netflix_db =
     empty_db\<lparr>users := [sample_user\<lparr>u_pending_fixed_expense_id := Some (- 12)\<rparr>],
              transactions := [expense 12 ''NETFLIX'' 8990 1770699990000],
              fixed_expenses := [sample_fixed\<lparr>fe_id := 4, fe_description := ''Netflix'',
                                              fe_typical_amount := 8990\<rparr>],
              transactions_seq := 13, fixed_expenses_seq := 5\<rparr>"

definition declined_user :: user where
  \<comment> \<open>the sample user after \<open>handleTransaction\<close> suggested to make transaction 20 fixed\<close>
  "declined_user = sample_user\<lparr>u_pending_fixed_expense_id := Some (- 20)\<rparr>"

definition declined_db :: db where
  "declined_db =
     empty_db\<lparr>users := [declined_user],
              transactions := [expense 20 ''arriendo'' 450000 1770000000000],
              transactions_seq := 21\<rparr>"

definition rejected_fixed :: fixed_expense where
  \<comment> \<open>the inactive row that remembers a declined suggestion for "arriendo"\<close>
  "rejected_fixed = sample_fixed\<lparr>fe_id := 1, fe_description := ''arriendo'', fe_is_active := False\<rparr>"

definition unnamed_db :: db where
  \<comment> \<open>after the suggestion was declined, an expense with no description was stored in the
      category "arriendo"\<close>
  "unnamed_db =
     empty_db\<lparr>transactions := [expense 20 ''arriendo'' 450000 1770000000000,
                                expense 21 '''' 450000 1770699990000],
              fixed_expenses := [rejected_fixed],
              transactions_seq := 22, fixed_expenses_seq := 2\<rparr>"

definition duplicate_db :: db where
  \<comment> \<open>after expense 21 was marked as fixed, the expense "Arriendo" was stored\<close>
  "duplicate_db =
     empty_db\<lparr>transactions := [expense 20 ''arriendo'' 450000 1770000000000,
                                (expense 21 '''' 450000 1770699990000)
                                  \<lparr>tx_expense_type := Fixed, tx_fixed_expense_id := Some 2\<rparr>,
                                expense 22 ''Arriendo'' 450000 1770699995000],
              fixed_expenses := [rejected_fixed,
                                 sample_fixed\<lparr>fe_id := 2, fe_description := ''arriendo''\<rparr>],
              transactions_seq := 23, fixed_expenses_seq := 3\<rparr>"

section \<open>Vocabulary of the properties\<close>

definition month_rows :: "int \<Rightarrow> date \<Rightarrow> db \<Rightarrow> txn list" where
  \<comment> \<open>the rows of the fallback query of the positional handlers before \<open>LIMIT 20\<close>: the user's
      transactions of the current month, \<open>ORDER BY created_at DESC\<close>\<close>
  "month_rows userId today d =
     order_by created_desc
       (filter (\<lambda>t. tx_user_id t = userId \<and> this_month today (tx_date t)) (transactions d))"

definition linked_count :: "int \<Rightarrow> int \<Rightarrow> db \<Rightarrow> nat" where
  \<comment> \<open>how many transactions of the user reference the fixed expense\<close>
  "linked_count userId feId d =
     length (filter (\<lambda>t. tx_user_id t = userId \<and> tx_fixed_expense_id t = Some feId) (transactions d))"

definition register_all :: "user \<Rightarrow> string \<Rightarrow> env \<Rightarrow> db \<Rightarrow> db" where
  \<comment> \<open>the store after the bulk response to the reminder\<close>
  "register_all usr message ev d = fst (snd (handleFixedExpenseReminderResponse usr message ev d))"

definition health_alerts_on :: "int \<Rightarrow> date \<Rightarrow> db \<Rightarrow> nat" where
  \<comment> \<open>the number of \<open>financial_health\<close> records of a user on a day\<close>
  "health_alerts_on userId day d =
     length (filter (\<lambda>a. fa_user_id a = userId \<and> fa_alert_type a = ''financial_health'' \<and>
                          fa_alert_date a = day) (financial_alerts d))"

definition alert_dedup :: "db \<Rightarrow> bool" where
  \<comment> \<open>no two \<open>financial_health\<close> records share user and day\<close>
  "alert_dedup d =
     distinct (map (\<lambda>a. (fa_user_id a, fa_alert_date a))
                 (filter (\<lambda>a. fa_alert_type a = ''financial_health'') (financial_alerts d)))"

fun health_checks :: "(user \<times> txn list \<times> string option \<times> env) list \<Rightarrow> db \<Rightarrow> db" where
  \<comment> \<open>any traffic: each step stores new transactions and then runs the check for a user\<close>
  "health_checks [] d = d"
| "health_checks ((usr, new, llm, ev) # steps) d =
     health_checks steps
       (fst (checkFinancialHealth usr llm ev (d\<lparr>transactions := transactions d @ new\<rparr>)))"

definition cooldown_elapsed :: "user \<Rightarrow> env \<Rightarrow> bool" where
  \<comment> \<open>no income prompt yet, or the last one is at least 30 days old (60 after a refusal)\<close>
  "cooldown_elapsed usr ev =
     (case u_last_income_update_prompt usr of
        None \<Rightarrow> True
      | Some t \<Rightarrow> (of_int (now_ms ev - t) :: rat) / (1000 * 60 * 60 * 24) \<ge>
                  (if u_income_update_declined usr then 60 else 30))"

definition fixed_unique :: "db \<Rightarrow> bool" where
  \<comment> \<open>at most one fixed expense per user and lower-cased description\<close>
  "fixed_unique d =
     distinct (map (\<lambda>fe. (fe_user_id fe, toLowerCase (fe_description fe))) (fixed_expenses d))"

definition same_description :: "int \<Rightarrow> string \<Rightarrow> db \<Rightarrow> fixed_expense list" where
  \<comment> \<open>the user's fixed expenses with this description, compared without case\<close>
  "same_description userId description d =
     filter (\<lambda>fe. fe_user_id fe = userId \<and> toLowerCase (fe_description fe) = toLowerCase description)
       (fixed_expenses d)"

definition marks_transaction :: "user \<Rightarrow> env \<Rightarrow> db \<Rightarrow> int \<Rightarrow> bool" where
  \<comment> \<open>\<open>handleMarkAsFixed\<close> is about transaction \<open>t\<close>: the pending suggestion names it, or
      nothing is pending and it is the user's newest variable expense of the last 10 minutes\<close>
  "marks_transaction usr ev d t =
     (case u_pending_fixed_expense_id usr of
        None \<Rightarrow> recent_variable_expense (u_id usr) (now_ms ev) d = Some t
      | Some p \<Rightarrow>
          if p = 0 then recent_variable_expense (u_id usr) (now_ms ev) d = Some t
          else p < 0 \<and> p \<noteq> - 999 \<and> \<bar>p\<bar> = t)"

section \<open>Properties\<close>

subsection \<open>Reminder days\<close>

lemma first_valid_day_range: "first_valid_day ms = Some d \<Longrightarrow> 1 \<le> d \<and> d \<le> 31"
  by (induction ms) (auto split: option.splits if_splits)

text \<open>
  C9. Whatever the message, \<open>extractReminderDay\<close> returns \<open>null\<close> (\<open>None\<close>) or a day \<open>d\<close> with
  \<open>1 \<le> d \<le> 31\<close>: a number a pattern captures outside that range is passed over, so every
  reminder day stored through it is a day of the month.
\<close>

theorem extractReminderDay_range:
  "extractReminderDay message = Some d \<Longrightarrow> 1 \<le> d \<and> d \<le> 31"
  unfolding extractReminderDay_def Let_def by (rule first_valid_day_range)

theorem extractReminderDay_range_witness:
  "extractReminderDay ''el dia 15'' = Some 15 \<and> extractReminderDay ''45'' = None \<and>
   (1::int) \<le> 15 \<and> (15::int) \<le> 31"
proof -
  have h: "extractReminderDay ''el dia 15'' = Some 15" by code_simp
  have n: "extractReminderDay ''45'' = None" by code_simp
  from extractReminderDay_range[OF h] h n show ?thesis by simp
qed

subsection \<open>The router\<close>

lemma digits_not_includes:
  "list_all is_digit s \<Longrightarrow> \<not> is_digit c \<Longrightarrow> \<not> str_includes s (c # p)"
  by (induction s) (auto simp: startsWith_def)

lemma bare_day_extract:
  assumes "trim (toLowerCase message) = ds" "ds \<noteq> []" "length ds \<le> 2" "list_all is_digit ds"
      and "1 \<le> parseInt ds" "parseInt ds \<le> 31"
  shows "extractReminderDay message = Some (parseInt ds)"
    and "isJustADay message"
    and "edit_updates message = (None, Some (parseInt ds))"
proof -
  have p: "pat_only_number ds = Some (parseInt ds)"
    using assms by (simp add: pat_only_number_def)
  show e: "extractReminderDay message = Some (parseInt ds)"
    using assms p by (simp add: extractReminderDay_def)
  show j: "isJustADay message"
    using assms p e by (simp add: isJustADay_def)
  show "edit_updates message = (None, Some (parseInt ds))"
    using e j assms by (auto simp add: edit_updates_def)
qed

lemma bare_day_branch:
  assumes "trim (toLowerCase message) = ds" "ds \<noteq> []" "length ds \<le> 2" "list_all is_digit ds"
      and "1 \<le> parseInt ds" "parseInt ds \<le> 31"
  shows "fixedExpenseEditBranch usr p message d =
         Replied (clearPendingFixedExpense (u_id usr)
                    (snd (updateFixedExpense p (u_id usr)
                            (no_updates\<lparr>upd_reminder_day := Some (Some (parseInt ds))\<rparr>) d)))
                 [ReminderDaySet (parseInt ds)]"
proof -
  have nd: "\<not> is_digit CHR ''s''" "\<not> is_digit CHR ''q''" by (simp_all add: is_digit_def)
  have inc: "\<not> str_includes ds (CHR ''s'' # q)" "\<not> str_includes ds (CHR ''q'' # q)" for q
    using digits_not_includes[OF assms(4)] nd by blast+
  have notcancel: "ds \<notin> set [''cancelar'', ''saltar'', ''skip'', ''omitir'']"
    using assms(4) by (auto simp: is_digit_def)
  show ?thesis
    unfolding fixedExpenseEditBranch_def Let_def assms(1)
    using notcancel inc bare_day_extract(3)[OF assms]
    by (simp add: no_updates_def)
qed

lemma route_positive:
  assumes "u_pending_fixed_expense_id usr = Some p" "p > 0"
  shows "processUserMessage usr message ev d = fixedExpenseEditBranch usr p message d"
  using assms by (simp add: processUserMessage_def)

lemma route_tx_edit:
  assumes "u_pending_fixed_expense_id usr = Some p" "p < - 2000"
  shows "processUserMessage usr message ev d = transactionEditBranch usr p message d"
  using assms by (simp add: processUserMessage_def)

lemma update_keeps_amounts:
  "map fe_typical_amount
     (fixed_expenses (snd (updateFixedExpense p uid (no_updates\<lparr>upd_reminder_day := r\<rparr>) d))) =
   map fe_typical_amount (fixed_expenses d)"
  by (simp add: updateFixedExpense_def no_updates_def apply_updates_def Let_def comp_def)

text \<open>
  C10. The pending action is a positive fixed-expense id and the message, lower-cased and
  trimmed, is one or two digits that read as a day between 1 and 31. Then the router's
  reply is "reminder set for that day", the only field of the fixed expense it updates is
  \<open>reminder_day\<close>, and the typical amounts in the table are what they were: the number
  is not read as an amount. For every message, the amount is read from it (\<open>edit_updates\<close>)
  only when \<open>isJustADay\<close> is false, and for a bare day it is true.
\<close>

theorem bare_day_sets_only_reminder_day:
  assumes "u_pending_fixed_expense_id usr = Some p" and "p > 0"
    and "trim (toLowerCase message) = ds" and "ds \<noteq> []" and "length ds \<le> 2"
    and "list_all is_digit ds" and "1 \<le> parseInt ds" and "parseInt ds \<le> 31"
  shows "processUserMessage usr message ev d =
           Replied (clearPendingFixedExpense (u_id usr)
                      (snd (updateFixedExpense p (u_id usr)
                              (no_updates\<lparr>upd_reminder_day := Some (Some (parseInt ds))\<rparr>) d)))
                   [ReminderDaySet (parseInt ds)] \<and>
         map fe_typical_amount
           (fixed_expenses (snd (updateFixedExpense p (u_id usr)
                                   (no_updates\<lparr>upd_reminder_day := Some (Some (parseInt ds))\<rparr>) d))) =
         map fe_typical_amount (fixed_expenses d) \<and>
         isJustADay message \<and> fst (edit_updates message) = None \<and>
         (\<forall>m. isJustADay m \<longrightarrow> fst (edit_updates m) = None)"
proof -
  have "processUserMessage usr message ev d = fixedExpenseEditBranch usr p message d"
    using assms(1,2) by (rule route_positive)
  moreover note bare_day_branch[OF assms(3-8), of usr p d]
  moreover note update_keeps_amounts[of p "u_id usr" "Some (Some (parseInt ds))" d]
  moreover note bare_day_extract(2,3)[OF assms(3-8)]
  moreover have "\<forall>m. isJustADay m \<longrightarrow> fst (edit_updates m) = None"
    by (simp add: edit_updates_def Let_def)
  ultimately show ?thesis by simp
qed

theorem bare_day_sets_only_reminder_day_witness:
  "processUserMessage (sample_user\<lparr>u_pending_fixed_expense_id := Some 7\<rparr>) '' 15 '' sample_env
     (empty_db\<lparr>users := [sample_user\<lparr>u_pending_fixed_expense_id := Some 7\<rparr>],
               fixed_expenses := [sample_fixed]\<rparr>) =
   Replied (empty_db\<lparr>fixed_expenses := [sample_fixed\<lparr>fe_reminder_day := Some 15\<rparr>]\<rparr>)
     [ReminderDaySet 15]"
proof -
  have t: "trim (toLowerCase '' 15 '') = ''15''" by code_simp
  have p: "parseInt ''15'' = 15" by code_simp
  have d: "list_all is_digit ''15''" by code_simp
  let ?d = "empty_db\<lparr>users := [sample_user\<lparr>u_pending_fixed_expense_id := Some 7\<rparr>],
                      fixed_expenses := [sample_fixed]\<rparr>"
  have "processUserMessage (sample_user\<lparr>u_pending_fixed_expense_id := Some 7\<rparr>) '' 15 '' sample_env ?d =
        Replied (clearPendingFixedExpense (u_id (sample_user\<lparr>u_pending_fixed_expense_id := Some 7\<rparr>))
                   (snd (updateFixedExpense 7 (u_id (sample_user\<lparr>u_pending_fixed_expense_id := Some 7\<rparr>))
                           (no_updates\<lparr>upd_reminder_day := Some (Some (parseInt ''15''))\<rparr>) ?d)))
                [ReminderDaySet (parseInt ''15'')]"
    using bare_day_sets_only_reminder_day[of "sample_user\<lparr>u_pending_fixed_expense_id := Some 7\<rparr>" 7
      "'' 15 ''" "''15''" sample_env ?d] t p d
    by simp
  then show ?thesis
    by (simp add: p sample_user_def empty_db_def sample_fixed_def clearPendingFixedExpense_def
        update_user_def updateFixedExpense_def no_updates_def apply_updates_def)
qed

lemma route_account_deletion:
  assumes "u_pending_fixed_expense_id usr = Some (- 998)"
  shows "processUserMessage usr message ev d = accountDeletionBranch usr message d"
  using assms by (simp add: processUserMessage_def)

lemma route_bulk_reminder:
  assumes "u_pending_fixed_expense_id usr = Some (- 999)"
  shows "processUserMessage usr message ev d =
         (case handleFixedExpenseReminderResponse usr message ev d of
            (True, d', rs) \<Rightarrow> Replied d' rs
          | (False, d', rs) \<Rightarrow> Classify d)"
  using assms by (simp add: processUserMessage_def split: prod.splits bool.splits)

lemma route_transaction_edit_pending:
  assumes "u_pending_fixed_expense_id usr = Some (pending_transaction_edit t)" "1 \<le> t"
  shows "processUserMessage usr message ev d =
           transactionEditBranch usr (pending_transaction_edit t) message d"
    and "\<bar>pending_transaction_edit t + 2000\<bar> = t"
  using assms route_tx_edit[of usr "pending_transaction_edit t" message ev d]
  by (simp_all add: pending_transaction_edit_def)

lemma route_mark_as_fixed:
  assumes "u_pending_fixed_expense_id usr = Some p" "p < 0" "- 2000 \<le> p" "p \<noteq> - 999" "p \<noteq> - 998"
  shows "processUserMessage usr message ev d = markAsFixedBranch usr p message ev d"
  using assms by (simp add: processUserMessage_def)

text \<open>
  C8. The encodings are not disjoint. \<open>handleTransaction\<close> stores \<open>-transactionId\<close> with its
  suggestion, and the router tests \<open>-998\<close> and \<open>< -2000\<close> before it tests "negative": for a
  transaction id above 2000 the next message is handled by the transaction-edit branch,
  as an edit of the transaction \<open>id - 2000\<close>, for the id 998 by the account-deletion
  branch, and for the id 999 by the answer to the monthly reminder (and by the classifier
  when that does not take it). Only the ids from 1 to 2000 other than 998 and 999 reach
  the branch of the suggestion. The other encodings keep to their branches
  (\<open>route_positive\<close>, \<open>route_transaction_edit_pending\<close>, \<open>route_account_deletion\<close>,
  \<open>route_bulk_reminder\<close>).
\<close>

theorem suggestion_pending_collides:
  assumes "u_pending_fixed_expense_id usr = Some (pending_mark_as_fixed t)"
  shows "(t > 2000 \<longrightarrow>
            processUserMessage usr message ev d =
            transactionEditBranch usr (pending_transaction_edit (t - 2000)) message d) \<and>
         (t = 998 \<longrightarrow> processUserMessage usr message ev d = accountDeletionBranch usr message d) \<and>
         (t = 999 \<longrightarrow>
            processUserMessage usr message ev d =
            (case handleFixedExpenseReminderResponse usr message ev d of
               (True, d', rs) \<Rightarrow> Replied d' rs
             | (False, d', rs) \<Rightarrow> Classify d)) \<and>
         (0 < t \<and> t \<le> 2000 \<and> t \<noteq> 998 \<and> t \<noteq> 999 \<longrightarrow>
            processUserMessage usr message ev d =
            markAsFixedBranch usr (pending_mark_as_fixed t) message ev d)"
proof -
  have p: "u_pending_fixed_expense_id usr = Some (- t)"
    using assms by (simp add: pending_mark_as_fixed_def)
  have "- t = pending_transaction_edit (t - 2000)"
    by (simp add: pending_transaction_edit_def)
  then show ?thesis
    using p route_tx_edit[of usr "- t" message ev d] route_account_deletion[of usr message ev d]
      route_bulk_reminder[of usr message ev d] route_mark_as_fixed[of usr "- t" message ev d]
    by (auto simp: pending_mark_as_fixed_def)
qed

theorem suggestion_pending_collides_witness:
  "u_pending_fixed_expense_id suggested_user = Some (pending_mark_as_fixed 2001) \<and>
   processUserMessage suggested_user ''fijo'' sample_env suggestion_db =
     Replied suggestion_db [EditOptionsReprompt] \<and>
   markAsFixedBranch suggested_user (pending_mark_as_fixed 2001) ''fijo'' sample_env suggestion_db \<noteq>
     Replied suggestion_db [EditOptionsReprompt]"
proof -
  have p: "u_pending_fixed_expense_id suggested_user = Some (pending_mark_as_fixed 2001)"
    by (simp add: suggested_user_def pending_mark_as_fixed_def)
  have e: "transactionEditBranch suggested_user (pending_transaction_edit (2001 - 2000)) ''fijo''
             suggestion_db = Replied suggestion_db [EditOptionsReprompt]"
    by code_simp
  have m: "markAsFixedBranch suggested_user (pending_mark_as_fixed 2001) ''fijo'' sample_env
             suggestion_db \<noteq> Replied suggestion_db [EditOptionsReprompt]"
    by code_simp
  from suggestion_pending_collides[OF p, of "''fijo''" sample_env suggestion_db] p e m
  show ?thesis by simp
qed

subsection \<open>Monthly reminder\<close>

lemma this_month_today: "1 \<le> dom today \<Longrightarrow> this_month today today"
  by (simp add: this_month_def date_le_def month_start_def)

lemma existingCheck_insert:
  "existingCheck uid f today (insert_fixed_transaction uid e ev d) =
     (existingCheck uid f today d \<or> (fe_id e = f \<and> this_month today (current_date ev)))"
  by (auto simp: existingCheck_def insert_fixed_transaction_def)

lemma linked_count_insert:
  "linked_count uid f (insert_fixed_transaction uid e ev d) =
     linked_count uid f d + (if fe_id e = f then 1 else 0)"
  by (simp add: linked_count_def insert_fixed_transaction_def)

lemma registerLoop_fst_Cons:
  "fst (registerLoop uid ev (e # es) d) =
     (if existingCheck uid (fe_id e) (current_date ev) d then fst (registerLoop uid ev es d)
      else fst (registerLoop uid ev es (insert_fixed_transaction uid e ev d)))"
  by (simp split: prod.splits)

lemma registerLoop_fixed_expenses:
  "fixed_expenses (fst (registerLoop uid ev es d)) = fixed_expenses d"
  by (induction es arbitrary: d)
     (simp_all add: registerLoop_fst_Cons insert_fixed_transaction_def del: registerLoop.simps(2))

lemma registerLoop_count:
  assumes "1 \<le> dom (current_date ev)"
  shows "linked_count uid f (fst (registerLoop uid ev es d)) =
         linked_count uid f d +
         (if f \<in> fe_id ` set es \<and> \<not> existingCheck uid f (current_date ev) d then 1 else 0)"
proof (induction es arbitrary: d)
  case Nil
  then show ?case by simp
next
  case (Cons e es)
  show ?case
  proof (cases "existingCheck uid (fe_id e) (current_date ev) d")
    case True
    then show ?thesis
      using Cons.IH[of d] by (auto simp: registerLoop_fst_Cons simp del: registerLoop.simps(2))
  next
    case False
    have "linked_count uid f (fst (registerLoop uid ev (e # es) d)) =
          linked_count uid f (fst (registerLoop uid ev es (insert_fixed_transaction uid e ev d)))"
      using False by (simp add: registerLoop_fst_Cons del: registerLoop.simps(2))
    also have "\<dots> = linked_count uid f (insert_fixed_transaction uid e ev d) +
          (if f \<in> fe_id ` set es \<and>
              \<not> existingCheck uid f (current_date ev) (insert_fixed_transaction uid e ev d)
           then 1 else 0)"
      by (rule Cons.IH)
    finally show ?thesis
      using False this_month_today[OF assms]
      by (auto simp: existingCheck_insert linked_count_insert)
  qed
qed

lemma registerLoop_mono:
  "existingCheck uid f today d \<Longrightarrow> existingCheck uid f today (fst (registerLoop uid ev es d))"
  by (induction es arbitrary: d)
     (simp_all add: registerLoop_fst_Cons existingCheck_insert del: registerLoop.simps(2))

lemma registerLoop_post:
  assumes "1 \<le> dom (current_date ev)"
  shows "f \<in> fe_id ` set es \<Longrightarrow>
         existingCheck uid f (current_date ev) (fst (registerLoop uid ev es d))"
proof (induction es arbitrary: d)
  case Nil
  then show ?case by simp
next
  case (Cons e es)
  show ?case
  proof (cases "fe_id e = f")
    case True
    then show ?thesis
      using this_month_today[OF assms]
      by (auto simp: registerLoop_fst_Cons existingCheck_insert simp del: registerLoop.simps(2)
               intro!: registerLoop_mono)
  next
    case False
    then show ?thesis
      using Cons by (auto simp: registerLoop_fst_Cons simp del: registerLoop.simps(2))
  qed
qed

lemma clearPending_tables [simp]:
  "transactions (clearPendingFixedExpense uid d) = transactions d"
  "fixed_expenses (clearPendingFixedExpense uid d) = fixed_expenses d"
  by (simp_all add: clearPendingFixedExpense_def update_user_def)

lemma linked_count_clear [simp]:
  "linked_count uid f (clearPendingFixedExpense u d) = linked_count uid f d"
  by (simp add: linked_count_def)

lemma existingCheck_clear [simp]:
  "existingCheck uid f today (clearPendingFixedExpense u d) = existingCheck uid f today d"
  by (simp add: existingCheck_def)

lemma getFixedExpenses_cong:
  "fixed_expenses d' = fixed_expenses d \<Longrightarrow> getFixedExpenses uid a d' = getFixedExpenses uid a d"
  by (simp add: getFixedExpenses_def)

lemma register_all_eq:
  assumes "is_register_all (trim (toLowerCase message))"
  shows "register_all usr message ev d =
         clearPendingFixedExpense (u_id usr)
           (fst (registerLoop (u_id usr) ev (getFixedExpenses (u_id usr) True d) d))"
  using assms
  by (auto simp: register_all_def handleFixedExpenseReminderResponse_def Let_def split: prod.splits)

lemma existingCheck_same_month:
  "month_start today' = month_start today \<Longrightarrow>
   existingCheck uid f today' d = existingCheck uid f today d"
  by (simp add: existingCheck_def this_month_def)

text \<open>
  C1. Two "register all" answers to the monthly reminder, on days of the same calendar
  month, from any store: for every fixed expense \<open>f\<close> the two runs together add at most one
  transaction linked to \<open>f\<close>; when a transaction of this month already references \<open>f\<close> at the
  second run, that run adds none for \<open>f\<close>; and after the first run this is so for every
  active fixed expense of the user.
\<close>

theorem register_all_twice_idempotent:
  assumes m1: "is_register_all (trim (toLowerCase message1))"
      and m2: "is_register_all (trim (toLowerCase message2))"
      and v1: "1 \<le> dom (current_date ev1)" and v2: "1 \<le> dom (current_date ev2)"
      and same: "month_start (current_date ev2) = month_start (current_date ev1)"
  shows "linked_count (u_id usr) f
           (register_all usr message2 ev2 (register_all usr message1 ev1 d)) \<le>
         linked_count (u_id usr) f d + 1 \<and>
         (existingCheck (u_id usr) f (current_date ev2) (register_all usr message1 ev1 d) \<longrightarrow>
            linked_count (u_id usr) f
              (register_all usr message2 ev2 (register_all usr message1 ev1 d)) =
            linked_count (u_id usr) f (register_all usr message1 ev1 d)) \<and>
         (f \<in> fe_id ` set (getFixedExpenses (u_id usr) True d) \<longrightarrow>
            existingCheck (u_id usr) f (current_date ev2) (register_all usr message1 ev1 d))"
proof -
  let ?uid = "u_id usr"
  let ?es = "getFixedExpenses ?uid True d"
  let ?l1 = "fst (registerLoop ?uid ev1 ?es d)"
  let ?d1 = "register_all usr message1 ev1 d"
  have d1: "?d1 = clearPendingFixedExpense ?uid ?l1"
    using m1 by (rule register_all_eq)
  have es1: "getFixedExpenses ?uid True ?d1 = ?es"
    unfolding d1 by (rule getFixedExpenses_cong) (simp add: registerLoop_fixed_expenses)
  let ?l2 = "fst (registerLoop ?uid ev2 ?es ?d1)"
  have d2: "register_all usr message2 ev2 ?d1 = clearPendingFixedExpense ?uid ?l2"
    using register_all_eq[OF m2, of usr ev2 ?d1] es1 by simp
  have c1: "linked_count ?uid f ?d1 = linked_count ?uid f d +
            (if f \<in> fe_id ` set ?es \<and> \<not> existingCheck ?uid f (current_date ev1) d then 1 else 0)"
    unfolding d1 using registerLoop_count[OF v1, of ?uid f ?es d] by simp
  have c2: "linked_count ?uid f (register_all usr message2 ev2 ?d1) = linked_count ?uid f ?d1 +
            (if f \<in> fe_id ` set ?es \<and> \<not> existingCheck ?uid f (current_date ev2) ?d1 then 1 else 0)"
    unfolding d2 using registerLoop_count[OF v2, of ?uid f ?es ?d1] by simp
  have post: "existingCheck ?uid f (current_date ev2) ?d1" if "f \<in> fe_id ` set ?es"
    unfolding d1 using registerLoop_post[OF v1 that, of ?uid d] existingCheck_same_month[OF same]
    by simp
  show ?thesis using c1 c2 post by auto
qed

theorem register_all_twice_idempotent_witness:
  "linked_count 1 7 reminded_db = 0 \<and>
   linked_count 1 7 (register_all sample_user ''Registrar todos'' sample_env reminded_db) = 1 \<and>
   linked_count 1 7
     (register_all sample_user ''todos'' (sample_env\<lparr>current_date := \<lparr>year = 2026, month = 2, dom = 25\<rparr>\<rparr>)
        (register_all sample_user ''Registrar todos'' sample_env reminded_db)) \<le> 1"
proof -
  let ?ev2 = "sample_env\<lparr>current_date := \<lparr>year = 2026, month = 2, dom = 25\<rparr>\<rparr>"
  have h: "is_register_all (trim (toLowerCase ''Registrar todos''))"
    "is_register_all (trim (toLowerCase ''todos''))"
    "1 \<le> dom (current_date sample_env)" "1 \<le> dom (current_date ?ev2)"
    "month_start (current_date ?ev2) = month_start (current_date sample_env)"
    by code_simp+
  have z: "linked_count 1 7 reminded_db = 0" by code_simp
  have o: "linked_count 1 7 (register_all sample_user ''Registrar todos'' sample_env reminded_db) = 1"
    by code_simp
  have u: "u_id sample_user = 1" by (simp add: sample_user_def)
  from register_all_twice_idempotent[OF h, of sample_user 7 reminded_db] z o u
  show ?thesis by simp
qed

subsection \<open>Financial health\<close>

lemma distinct_key_filter:
  "distinct (map k xs) \<Longrightarrow> length (filter (\<lambda>a. k a = v) xs) \<le> 1"
  by (induction xs) (auto simp: filter_empty_conv image_iff)

lemma alert_dedup_count:
  assumes "alert_dedup d"
  shows "health_alerts_on userId day d \<le> 1"
proof -
  let ?xs = "filter (\<lambda>a. fa_alert_type a = ''financial_health'') (financial_alerts d)"
  have "health_alerts_on userId day d =
        length (filter (\<lambda>a. (fa_user_id a, fa_alert_date a) = (userId, day)) ?xs)"
    unfolding health_alerts_on_def by (simp add: conj_commute conj_left_commute)
  also have "\<dots> \<le> 1"
    using assms unfolding alert_dedup_def by (rule distinct_key_filter)
  finally show ?thesis .
qed

lemma insert_alert_dedup:
  "alert_dedup d \<Longrightarrow> alert_dedup (insert_financial_alert userId ty day d)"
  unfolding alert_dedup_def insert_financial_alert_def list_ex_iff
  by (auto simp: image_iff)

lemma insert_alert_fresh:
  "\<not> has_alert_today userId day d \<Longrightarrow>
   insert_financial_alert userId ''financial_health'' day d =
   d\<lparr>financial_alerts := financial_alerts d @
        [\<lparr>fa_user_id = userId, fa_alert_type = ''financial_health'', fa_alert_date = day\<rparr>]\<rparr>"
  unfolding has_alert_today_def insert_financial_alert_def by simp

lemma checkFinancialHealth_cases:
  "checkFinancialHealth usr llm ev d = (d, []) \<or>
   (\<not> has_alert_today (u_id usr) (current_date ev) d \<and>
    (\<exists>ty cat adv.
       checkFinancialHealth usr llm ev d =
         (insert_financial_alert (u_id usr) ''financial_health'' (current_date ev) d,
          [FinancialHealthAlert ty cat adv])))"
proof (cases "has_alert_today (u_id usr) (current_date ev) d")
  case True
  then show ?thesis by (simp add: checkFinancialHealth_def)
next
  case no: False
  show ?thesis
  proof (cases "spentResult (u_id usr) (current_date ev) d")
    case Nil
    then show ?thesis using no by (simp add: checkFinancialHealth_def)
  next
    case (Cons top others)
    show ?thesis
    proof (cases "getEffectiveMonthlyIncome usr ev d - u_savings_goal usr \<le> 0")
      case True
      then show ?thesis using no Cons by (simp add: checkFinancialHealth_def Let_def)
    next
      case pos: False
      show ?thesis
      proof (cases "choose_alert (getEffectiveMonthlyIncome usr ev d) (u_savings_goal usr)
                      (sum_list (map (\<lambda>r. snd (snd r)) (top # others)))
                      (getEffectiveMonthlyIncome usr ev d - u_savings_goal usr)
                      (snd (snd top)) (local_date ev)")
        case None
        then show ?thesis using no Cons pos by (simp add: checkFinancialHealth_def Let_def)
      next
        case (Some ty)
        then show ?thesis using no Cons pos by (simp add: checkFinancialHealth_def Let_def)
      qed
    qed
  qed
qed

lemma checkFinancialHealth_dedup:
  "alert_dedup d \<Longrightarrow> alert_dedup (fst (checkFinancialHealth usr llm ev d))"
  using checkFinancialHealth_cases[of usr llm ev d] insert_alert_dedup[of d]
  by auto

lemma health_checks_dedup:
  "alert_dedup d \<Longrightarrow> alert_dedup (health_checks steps d)"
proof (induction steps arbitrary: d)
  case Nil
  then show ?case by simp
next
  case (Cons s steps)
  obtain usr new llm ev where s: "s = (usr, new, llm, ev)" by (cases s)
  have "alert_dedup (d\<lparr>transactions := transactions d @ new\<rparr>)"
    using Cons.prems by (simp add: alert_dedup_def)
  then show ?case
    unfolding s by (auto intro!: Cons.IH checkFinancialHealth_dedup)
qed

text \<open>
  C2. From a store in which no two \<open>financial_health\<close> records share user and day, any
  sequence of steps, each storing new transactions and running the check for a user,
  leaves at most one such record for every user and day. A single check returns without
  a message and without a change when the user has a record for today; otherwise it
  either does nothing or sends one alert and appends exactly one record, for that user
  and today.
\<close>

theorem financial_health_once_a_day:
  assumes "alert_dedup d"
  shows "alert_dedup (health_checks steps d) \<and>
         health_alerts_on userId day (health_checks steps d) \<le> 1 \<and>
         (has_alert_today (u_id usr) (current_date ev) d \<longrightarrow>
            checkFinancialHealth usr llm ev d = (d, [])) \<and>
         (checkFinancialHealth usr llm ev d = (d, []) \<or>
          (\<exists>ty cat adv.
             checkFinancialHealth usr llm ev d =
               (d\<lparr>financial_alerts := financial_alerts d @
                     [\<lparr>fa_user_id = u_id usr, fa_alert_type = ''financial_health'',
                       fa_alert_date = current_date ev\<rparr>]\<rparr>,
                [FinancialHealthAlert ty cat adv])))"
proof -
  have a: "alert_dedup (health_checks steps d)"
    using assms by (rule health_checks_dedup)
  have b: "health_alerts_on userId day (health_checks steps d) \<le> 1"
    using a by (rule alert_dedup_count)
  have c: "checkFinancialHealth usr llm ev d = (d, [])"
    if "has_alert_today (u_id usr) (current_date ev) d"
    using that by (simp add: checkFinancialHealth_def)
  show ?thesis
    using a b c checkFinancialHealth_cases[of usr llm ev d]
    by (auto simp: insert_alert_fresh)
qed

theorem financial_health_once_a_day_witness:
  "alert_dedup scenario_db \<and>
   health_alerts_on 1 (current_date sample_env)
     (health_checks [(sample_user, [], None, sample_env),
                     (sample_user, [expense 3 ''dividendo'' 90000 1770650000000], None, sample_env)]
        scenario_db) = 1"
proof -
  let ?steps = "[(sample_user, [], None, sample_env),
                 (sample_user, [expense 3 ''dividendo'' 90000 1770650000000], None, sample_env)]"
  have a: "alert_dedup scenario_db" by code_simp
  have g: "1 \<le> health_alerts_on 1 (current_date sample_env) (health_checks ?steps scenario_db)"
    by code_simp
  from financial_health_once_a_day[OF a, of ?steps 1 "current_date sample_env"] a g
  show ?thesis by simp
qed

lemma choose_alert_high:
  assumes "spendingBudget > 0" "totalSpent / spendingBudget * 100 > 70"
          "totalSpent / spendingBudget * 100 < 100"
  shows "choose_alert income savingsGoal totalSpent spendingBudget topTotal today = Some HighSpending"
  using assms by (simp add: choose_alert_def Let_def)

lemma scenario_spent:
  "spentResult 1 (current_date sample_env) scenario_db = [(''arriendo'', ''casa'', 560000)]"
  by code_simp

lemma scenario_income: "getEffectiveMonthlyIncome sample_user sample_env scenario_db = 800000"
  by code_simp

lemma scenario_no_alert: "\<not> has_alert_today 1 (current_date sample_env) scenario_db"
  by code_simp

text \<open>
  C3, as stated, fails on the scenario: declared income 800000, savings goal 100000 and
  560000 spent in one category. The check sends one alert, and it is the generic one
  (80% of the spending budget is above 70% and below 100%, and that condition is tested
  first); the category alert is not sent.
\<close>

theorem scenario_category_alert_counterexample:
  "snd (checkFinancialHealth sample_user None sample_env scenario_db) =
     [FinancialHealthAlert HighSpending None (FallbackTip ''arriendo'')] \<and>
   snd (checkFinancialHealth sample_user None sample_env scenario_db) \<noteq>
     [FinancialHealthAlert CategoryHigh (Some ''arriendo'') (FallbackTip ''arriendo'')]"
proof -
  have "snd (checkFinancialHealth sample_user None sample_env scenario_db) =
     [FinancialHealthAlert HighSpending None (FallbackTip ''arriendo'')]"
    by code_simp
  then show ?thesis by simp
qed

text \<open>
  C3, amended. In that scenario (no alert yet today, effective income 800000, savings goal
  100000, this month's expenses 560000 in a single category) the check sends exactly one
  alert, the generic one for more than 70% of the spending budget, and records it once;
  the category alert is not sent in the same check. The alert's own text names no
  category; the tip appended to it names the category when the advice call fails.
\<close>

theorem scenario_fires_generic_alert:
  assumes "\<not> has_alert_today (u_id usr) (current_date ev) d"
      and "u_monthly_income usr = 800000" and "u_savings_goal usr = 100000"
      and "getEffectiveMonthlyIncome usr ev d = 800000"
      and "spentResult (u_id usr) (current_date ev) d = [(cat, emoji, 560000)]"
  shows "checkFinancialHealth usr llm ev d =
           (insert_financial_alert (u_id usr) ''financial_health'' (current_date ev) d,
            [FinancialHealthAlert HighSpending None (generateFinancialAdvice llm cat)]) \<and>
         generateFinancialAdvice None cat = FallbackTip cat \<and>
         health_alerts_on (u_id usr) (current_date ev)
           (fst (checkFinancialHealth usr llm ev d)) = 1"
proof -
  have c: "choose_alert 800000 100000 560000 (800000 - 100000) 560000 (local_date ev) =
           Some HighSpending"
    by (rule choose_alert_high) simp_all
  have r: "checkFinancialHealth usr llm ev d =
           (insert_financial_alert (u_id usr) ''financial_health'' (current_date ev) d,
            [FinancialHealthAlert HighSpending None (generateFinancialAdvice llm cat)])"
    using assms c by (simp add: checkFinancialHealth_def Let_def)
  have n: "health_alerts_on (u_id usr) (current_date ev) d = 0"
    using assms(1)
    by (simp add: health_alerts_on_def has_alert_today_def list_ex_iff filter_empty_conv)
  have "health_alerts_on (u_id usr) (current_date ev)
          (insert_financial_alert (u_id usr) ''financial_health'' (current_date ev) d) = 1"
    using n assms(1) by (simp add: insert_alert_fresh health_alerts_on_def)
  then show ?thesis using r by (simp add: generateFinancialAdvice_def)
qed

theorem scenario_fires_generic_alert_witness:
  "checkFinancialHealth sample_user None sample_env scenario_db =
     (scenario_db\<lparr>financial_alerts :=
        [\<lparr>fa_user_id = 1, fa_alert_type = ''financial_health'',
          fa_alert_date = \<lparr>year = 2026, month = 2, dom = 10\<rparr>\<rparr>]\<rparr>,
      [FinancialHealthAlert HighSpending None (FallbackTip ''arriendo'')])"
proof -
  have u: "u_id sample_user = 1" "u_monthly_income sample_user = 800000"
    "u_savings_goal sample_user = 100000" by (simp_all add: sample_user_def)
  have i: "insert_financial_alert 1 ''financial_health'' (current_date sample_env) scenario_db =
     scenario_db\<lparr>financial_alerts :=
        [\<lparr>fa_user_id = 1, fa_alert_type = ''financial_health'',
          fa_alert_date = \<lparr>year = 2026, month = 2, dom = 10\<rparr>\<rparr>]\<rparr>"
    by (simp add: insert_financial_alert_def scenario_db_def empty_db_def sample_env_def)
  show ?thesis
    using scenario_fires_generic_alert[of sample_user sample_env scenario_db "''arriendo''"
        "''casa''" None]
      scenario_spent scenario_income scenario_no_alert u i
    by (simp add: generateFinancialAdvice_def)
qed

subsection \<open>Positional edit and delete\<close>

lemma set_insert_by [simp]: "set (insert_by le x xs) = insert x (set xs)"
  by (induction xs) auto

lemma set_order_by [simp]: "set (order_by le xs) = set xs"
  unfolding order_by_def by (induction xs) auto

lemma month_list_subset:
  "set (month_list uid today d) \<subseteq>
   tx_id ` {t \<in> set (transactions d). tx_user_id t = uid \<and> this_month today (tx_date t)}"
proof -
  have "set (take 20 (order_by created_desc
          (filter (\<lambda>t. tx_user_id t = uid \<and> this_month today (tx_date t)) (transactions d)))) \<subseteq>
        {t \<in> set (transactions d). tx_user_id t = uid \<and> this_month today (tx_date t)}"
    using set_take_subset[of 20 "order_by created_desc
          (filter (\<lambda>t. tx_user_id t = uid \<and> this_month today (tx_date t)) (transactions d))"]
    by auto
  then show ?thesis unfolding month_list_def by auto
qed

lemma sorted_insert_created:
  "sorted_wrt created_desc xs \<Longrightarrow> sorted_wrt created_desc (insert_by created_desc x xs)"
  by (induction xs) (auto simp: created_desc_def)

lemma sorted_order_by_created: "sorted_wrt created_desc (order_by created_desc xs)"
  unfolding order_by_def by (induction xs) (simp_all add: sorted_insert_created)

lemma count_insert_by: "count_list (insert_by le x xs) t = count_list (x # xs) t"
  by (induction xs) auto

lemma count_order_by: "count_list (order_by le xs) t = count_list xs t"
  unfolding order_by_def by (induction xs) (simp_all add: count_insert_by)

lemma month_list_rows:
  "month_list uid today d = map tx_id (take 20 (month_rows uid today d))"
  by (simp add: month_list_def month_rows_def)

lemma month_rows_newest_first:
  "sorted_wrt (\<lambda>a b. tx_created_at a \<ge> tx_created_at b) (month_rows uid today d)"
  using sorted_order_by_created[of "filter (\<lambda>t. tx_user_id t = uid \<and> this_month today (tx_date t)) (transactions d)"]
  by (simp add: month_rows_def created_desc_def[abs_def])

lemma month_rows_permutation:
  "count_list (month_rows uid today d) t =
   count_list (filter (\<lambda>t. tx_user_id t = uid \<and> this_month today (tx_date t)) (transactions d)) t"
  by (simp add: month_rows_def count_order_by)

lemma resolve_index_fallback_exact:
  assumes "\<forall>ids. getLastShownTxIds uid d = Some ids \<longrightarrow> i > int (length ids)"
  shows "resolve_index uid i today d =
         (if i > int (length (month_list uid today d)) then None
          else Some (month_list uid today d ! nat (i - 1)))"
  using assms by (auto simp: resolve_index_def Let_def split: option.splits)

lemma resolve_index_origin:
  assumes "1 \<le> i" "resolve_index uid i today d = Some t"
  shows "(\<exists>ids. getLastShownTxIds uid d = Some ids \<and> i \<le> int (length ids) \<and> t = ids ! nat (i - 1)) \<or>
         ((getLastShownTxIds uid d = None \<or>
           (\<exists>ids. getLastShownTxIds uid d = Some ids \<and> i > int (length ids))) \<and>
          i \<le> int (length (month_list uid today d)) \<and> t = month_list uid today d ! nat (i - 1))"
  using assms by (auto simp: resolve_index_def Let_def split: option.splits if_splits)

lemma handleDeleteExpense_cases:
  assumes "1 \<le> i"
  shows "handleDeleteExpense usr (Some i) ev d =
         (case resolve_index (u_id usr) i (current_date ev) d of
            None \<Rightarrow> (d, [NoSuchExpense i])
          | Some t \<Rightarrow>
              (case tx_by_id t (u_id usr) d of
                 None \<Rightarrow> (d, [ExpenseGone i])
               | Some tx \<Rightarrow> (delete_tx t (u_id usr) d, [DeletedExpense i t])))"
proof -
  have "tx_id tx = t" if "tx_by_id t (u_id usr) d = Some tx" for t tx
    using that unfolding tx_by_id_def by (auto dest: find_Some_iff[THEN iffD1])
  then show ?thesis
    using assms by (auto simp: handleDeleteExpense_def split: option.splits)
qed

lemma handleEditExpense_cases:
  assumes "1 \<le> i"
  shows "handleEditExpense usr (Some i) ev d =
         (case resolve_index (u_id usr) i (current_date ev) d of
            None \<Rightarrow> (d, [NoSuchExpense i])
          | Some t \<Rightarrow>
              (case tx_by_id t (u_id usr) d of
                 None \<Rightarrow> (d, [ExpenseGone i])
               | Some tx \<Rightarrow>
                   (setPendingFixedExpense (u_id usr) (pending_transaction_edit t) d,
                    [EditingExpense i t])))"
proof -
  have "tx_id tx = t" if "tx_by_id t (u_id usr) d = Some tx" for t tx
    using that unfolding tx_by_id_def by (auto dest: find_Some_iff[THEN iffD1])
  then show ?thesis
    using assms by (auto simp: handleEditExpense_def split: option.splits)
qed

lemma handleEditExpense_transactions:
  "transactions (fst (handleEditExpense usr index ev d)) = transactions d"
  by (auto simp: handleEditExpense_def setPendingFixedExpense_def update_user_def
           split: option.splits)

lemma resolve_index_None:
  assumes "1 \<le> i"
  shows "resolve_index uid i today d = None \<longleftrightarrow>
         (i > int (length (month_list uid today d)) \<and>
          (\<forall>ids. getLastShownTxIds uid d = Some ids \<longrightarrow> i > int (length ids)))"
  by (auto simp: resolve_index_def Let_def split: option.splits)

lemma resolve_index_member:
  assumes "1 \<le> i" "resolve_index uid i today d = Some t"
  shows "(\<exists>ids. getLastShownTxIds uid d = Some ids \<and> t \<in> set ids) \<or>
         t \<in> set (month_list uid today d)"
proof -
  have n: "xs ! nat (i - 1) \<in> set xs" if "i \<le> int (length xs)" for xs :: "int list"
    using that assms(1) by (intro nth_mem) linarith
  from resolve_index_origin[OF assms] show ?thesis
    using n by auto
qed

text \<open>
  C4, amended. For an index \<open>i \<ge> 1\<close>: when the user's last shown list is present and has at
  least \<open>i\<close> entries, the index stands for its \<open>i\<close>-th entry. Otherwise (no list is stored,
  or it has fewer than \<open>i\<close> entries) the index stands for the \<open>i\<close>-th entry of the fallback
  list, and for nothing when that list has fewer than \<open>i\<close> entries. The fallback list holds
  the ids of the first 20 of \<open>month_rows\<close>, which are the user's transactions of the current
  month, each as often as it is stored, ordered by creation time, newest first; they need
  not have been shown. Every id an index resolves to comes from one of the two lists.
  The index resolves to nothing exactly when it exceeds both, and then both handlers
  reply "no such expense" and change nothing. The delete handler either leaves the
  store as it is or deletes the user's transaction with the resolved id; the edit
  handler either leaves the store as it is or records the resolved id as the transaction
  being edited, and never changes a transaction.
\<close>

theorem positional_reference_resolution:
  assumes "1 \<le> i"
  shows "(\<forall>ids. getLastShownTxIds (u_id usr) d = Some ids \<and> i \<le> int (length ids) \<longrightarrow>
            resolve_index (u_id usr) i (current_date ev) d = Some (ids ! nat (i - 1)) \<and>
            ids ! nat (i - 1) \<in> set ids) \<and>
         ((\<forall>ids. getLastShownTxIds (u_id usr) d = Some ids \<longrightarrow> i > int (length ids)) \<longrightarrow>
            resolve_index (u_id usr) i (current_date ev) d =
              (if i > int (length (month_list (u_id usr) (current_date ev) d)) then None
               else Some (month_list (u_id usr) (current_date ev) d ! nat (i - 1)))) \<and>
         month_list (u_id usr) (current_date ev) d =
           map tx_id (take 20 (month_rows (u_id usr) (current_date ev) d)) \<and>
         sorted_wrt (\<lambda>a b. tx_created_at a \<ge> tx_created_at b)
           (month_rows (u_id usr) (current_date ev) d) \<and>
         (\<forall>t. count_list (month_rows (u_id usr) (current_date ev) d) t =
              count_list (filter (\<lambda>t. tx_user_id t = u_id usr \<and>
                                       this_month (current_date ev) (tx_date t)) (transactions d)) t) \<and>
         (\<forall>t. resolve_index (u_id usr) i (current_date ev) d = Some t \<longrightarrow>
            (\<exists>ids. getLastShownTxIds (u_id usr) d = Some ids \<and> t \<in> set ids) \<or>
            t \<in> set (month_list (u_id usr) (current_date ev) d)) \<and>
         (resolve_index (u_id usr) i (current_date ev) d = None \<longleftrightarrow>
            i > int (length (month_list (u_id usr) (current_date ev) d)) \<and>
            (\<forall>ids. getLastShownTxIds (u_id usr) d = Some ids \<longrightarrow> i > int (length ids))) \<and>
         (resolve_index (u_id usr) i (current_date ev) d = None \<longrightarrow>
            handleDeleteExpense usr (Some i) ev d = (d, [NoSuchExpense i]) \<and>
            handleEditExpense usr (Some i) ev d = (d, [NoSuchExpense i])) \<and>
         (fst (handleDeleteExpense usr (Some i) ev d) = d \<or>
          (\<exists>t. resolve_index (u_id usr) i (current_date ev) d = Some t \<and>
               handleDeleteExpense usr (Some i) ev d =
                 (delete_tx t (u_id usr) d, [DeletedExpense i t]))) \<and>
         (fst (handleEditExpense usr (Some i) ev d) = d \<or>
          (\<exists>t. resolve_index (u_id usr) i (current_date ev) d = Some t \<and>
               handleEditExpense usr (Some i) ev d =
                 (setPendingFixedExpense (u_id usr) (pending_transaction_edit t) d,
                  [EditingExpense i t]))) \<and>
         transactions (fst (handleEditExpense usr (Some i) ev d)) = transactions d \<and>
         set (month_list (u_id usr) (current_date ev) d) \<subseteq>
           tx_id ` {t \<in> set (transactions d).
                     tx_user_id t = u_id usr \<and> this_month (current_date ev) (tx_date t)}"
proof -
  have a: "resolve_index (u_id usr) i (current_date ev) d = Some (ids ! nat (i - 1)) \<and>
           ids ! nat (i - 1) \<in> set ids"
    if "getLastShownTxIds (u_id usr) d = Some ids" "i \<le> int (length ids)" for ids
  proof -
    have "nat (i - 1) < length ids" using that(2) assms by linarith
    then show ?thesis using that assms by (simp add: resolve_index_def)
  qed
  have a': "resolve_index (u_id usr) i (current_date ev) d =
              (if i > int (length (month_list (u_id usr) (current_date ev) d)) then None
               else Some (month_list (u_id usr) (current_date ev) d ! nat (i - 1)))"
    if "\<forall>ids. getLastShownTxIds (u_id usr) d = Some ids \<longrightarrow> i > int (length ids)"
    using that by (rule resolve_index_fallback_exact)
  note m1 = month_list_rows[of "u_id usr" "current_date ev" d]
  note m2 = month_rows_newest_first[of "u_id usr" "current_date ev" d]
  have m3: "\<forall>t. count_list (month_rows (u_id usr) (current_date ev) d) t =
              count_list (filter (\<lambda>t. tx_user_id t = u_id usr \<and>
                                       this_month (current_date ev) (tx_date t)) (transactions d)) t"
    by (simp add: month_rows_permutation)
  have b: "(\<exists>ids. getLastShownTxIds (u_id usr) d = Some ids \<and> t \<in> set ids) \<or>
           t \<in> set (month_list (u_id usr) (current_date ev) d)"
    if "resolve_index (u_id usr) i (current_date ev) d = Some t" for t
    using assms that by (rule resolve_index_member)
  note c = resolve_index_None[OF assms, of "u_id usr" "current_date ev" d]
  have e: "handleDeleteExpense usr (Some i) ev d = (d, [NoSuchExpense i]) \<and>
           handleEditExpense usr (Some i) ev d = (d, [NoSuchExpense i])"
    if "resolve_index (u_id usr) i (current_date ev) d = None"
    using that by (simp add: handleDeleteExpense_cases[OF assms] handleEditExpense_cases[OF assms])
  have f: "fst (handleDeleteExpense usr (Some i) ev d) = d \<or>
          (\<exists>t. resolve_index (u_id usr) i (current_date ev) d = Some t \<and>
               handleDeleteExpense usr (Some i) ev d =
                 (delete_tx t (u_id usr) d, [DeletedExpense i t]))"
    by (simp add: handleDeleteExpense_cases[OF assms] split: option.splits)
  have f': "fst (handleEditExpense usr (Some i) ev d) = d \<or>
          (\<exists>t. resolve_index (u_id usr) i (current_date ev) d = Some t \<and>
               handleEditExpense usr (Some i) ev d =
                 (setPendingFixedExpense (u_id usr) (pending_transaction_edit t) d,
                  [EditingExpense i t]))"
    by (simp add: handleEditExpense_cases[OF assms] split: option.splits)
  have p1: "\<forall>ids. getLastShownTxIds (u_id usr) d = Some ids \<and> i \<le> int (length ids) \<longrightarrow>
            resolve_index (u_id usr) i (current_date ev) d = Some (ids ! nat (i - 1)) \<and>
            ids ! nat (i - 1) \<in> set ids"
    using a by blast
  have p2: "(\<forall>ids. getLastShownTxIds (u_id usr) d = Some ids \<longrightarrow> i > int (length ids)) \<longrightarrow>
            resolve_index (u_id usr) i (current_date ev) d =
              (if i > int (length (month_list (u_id usr) (current_date ev) d)) then None
               else Some (month_list (u_id usr) (current_date ev) d ! nat (i - 1)))"
    using a' by blast
  have p6: "\<forall>t. resolve_index (u_id usr) i (current_date ev) d = Some t \<longrightarrow>
            (\<exists>ids. getLastShownTxIds (u_id usr) d = Some ids \<and> t \<in> set ids) \<or>
            t \<in> set (month_list (u_id usr) (current_date ev) d)"
    using b by blast
  have p8: "resolve_index (u_id usr) i (current_date ev) d = None \<longrightarrow>
            handleDeleteExpense usr (Some i) ev d = (d, [NoSuchExpense i]) \<and>
            handleEditExpense usr (Some i) ev d = (d, [NoSuchExpense i])"
    using e by blast
  show ?thesis
    by (intro conjI p1 p2 m1 m2 m3 p6 c p8 f f'
          handleEditExpense_transactions[of usr "Some i" ev d]
          month_list_subset[of "u_id usr" "current_date ev" d])
qed

text \<open>
  C4, as stated, fails: an index beyond the list the user was shown is resolved against the
  fallback list. The user was shown the single transaction 5; "delete expense 2" deletes
  transaction 7, and "edit expense 2" opens transaction 7 for editing, which was never
  shown.
\<close>

theorem positional_delete_unshown_counterexample:
  "getLastShownTxIds (u_id shown_user) shown_db = Some [5] \<and>
   snd (handleDeleteExpense shown_user (Some 2) sample_env shown_db) = [DeletedExpense 2 7] \<and>
   map tx_id (transactions (fst (handleDeleteExpense shown_user (Some 2) sample_env shown_db))) = [5, 8] \<and>
   snd (handleEditExpense shown_user (Some 2) sample_env shown_db) = [EditingExpense 2 7] \<and>
   (7::int) \<notin> set [5]"
  by code_simp

theorem positional_reference_resolution_witness:
  "resolve_index 1 1 (current_date sample_env) shown_db = Some 5 \<and>
   resolve_index 1 2 (current_date sample_env) shown_db = Some 7 \<and>
   resolve_index 1 3 (current_date sample_env) shown_db = Some 5 \<and>
   month_list 1 (current_date sample_env) shown_db = [8, 7, 5] \<and>
   map tx_created_at (month_rows 1 (current_date sample_env) shown_db) =
     [1770200000000, 1770100000000, 1770000000000] \<and>
   handleDeleteExpense shown_user (Some 4) sample_env shown_db = (shown_db, [NoSuchExpense 4])"
proof -
  have u: "u_id shown_user = 1" by (simp add: shown_user_def sample_user_def)
  have g: "getLastShownTxIds 1 shown_db = Some [5]" by code_simp
  have m: "month_list 1 (current_date sample_env) shown_db = [8, 7, 5]" by code_simp
  have c: "map tx_created_at (month_rows 1 (current_date sample_env) shown_db) =
     [1770200000000, 1770100000000, 1770000000000]" by code_simp
  note t2 = positional_reference_resolution[of 2 shown_user shown_db sample_env,
      THEN conjunct2, THEN conjunct1]
  note t3 = positional_reference_resolution[of 3 shown_user shown_db sample_env,
      THEN conjunct2, THEN conjunct1]
  have r2: "resolve_index 1 2 (current_date sample_env) shown_db = Some 7"
    using t2 g m u by simp
  have r3: "resolve_index 1 3 (current_date sample_env) shown_db = Some 5"
    using t3 g m u by simp
  have r4: "resolve_index 1 4 (current_date sample_env) shown_db = None"
    using positional_reference_resolution[of 4 shown_user shown_db sample_env] g m u by simp
  have r1: "resolve_index 1 1 (current_date sample_env) shown_db = Some 5"
    using positional_reference_resolution[of 1 shown_user shown_db sample_env] g u by simp
  have d4: "handleDeleteExpense shown_user (Some 4) sample_env shown_db = (shown_db, [NoSuchExpense 4])"
    using positional_reference_resolution[of 4 shown_user shown_db sample_env] r4 u by simp
  show ?thesis using r1 r2 r3 m c d4 by simp
qed

subsection \<open>Budgets\<close>

text \<open>
  The percentage of one budget is guarded in both places, as the claim C5 says: a limit
  of 0 or less gives 0 in the report and no alert after a write.
\<close>

lemma budget_line_guard:
  "b_monthly_limit (fst bc) \<le> 0 \<Longrightarrow>
   fst (snd (snd (snd (budget_line uid today d bc)))) = 0"
  by (simp add: budget_line_def Let_def)

lemma checkBudgetAlerts_guard:
  assumes "\<forall>b \<in> set (budgets d). b_user_id b = u_id usr \<and> b_category_id b = categoryId \<longrightarrow>
             b_monthly_limit b \<le> 0"
  shows "checkBudgetAlerts usr categoryId ev d = []"
proof (cases "filter (\<lambda>bc. b_category_id (fst bc) = categoryId) (budget_rows (u_id usr) d)")
  case Nil
  then show ?thesis by (simp add: checkBudgetAlerts_def)
next
  case (Cons bc rest)
  then have "bc \<in> set (filter (\<lambda>bc. b_category_id (fst bc) = categoryId) (budget_rows (u_id usr) d))"
    by simp
  then have "fst bc \<in> set (budgets d)" "b_user_id (fst bc) = u_id usr"
    "b_category_id (fst bc) = categoryId"
    by (auto simp: budget_rows_def)
  then have "b_monthly_limit (fst bc) \<le> 0" using assms by blast
  then show ?thesis using Cons by (simp add: checkBudgetAlerts_def Let_def)
qed

text \<open>
  C5 does not hold of the code for the report's total: total spent over total budget is
  divided without the guard of the per-budget line. With a single budget whose limit is 0
  the percentage of the total line is \<open>NaN\<close> when nothing was spent and \<open>Infinity\<close> when
  something was.
\<close>

theorem zero_budget_total_is_nan:
  "handleBudgetStatus sample_user sample_env zero_budget_db =
     [BudgetStatusReport [(''arriendo'', 0, 0, 0, BadgeOk)] 0 0 NaN] \<and>
   handleBudgetStatus sample_user sample_env
     (zero_budget_db\<lparr>transactions := [expense 1 ''arriendo febrero'' 450000 1770000000000]\<rparr>) =
     [BudgetStatusReport [(''arriendo'', 0, 450000, 0, BadgeOk)] 0 450000 PosInf]"
  by code_simp

subsection \<open>Income re-estimation\<close>

lemma update_user_avg [simp]:
  "avg_income uid today (update_user i f d) = avg_income uid today d"
  by (simp add: avg_income_def monthly_totals_def update_user_def)

lemma declined_cooldown:
  assumes "u_income_update_declined usr" "u_last_income_update_prompt usr = Some t"
      and "(of_int (now_ms ev - t) :: rat) / (1000 * 60 * 60 * 24) < 60"
  shows "checkIncomeUpdatePrompt usr ev d = (d, [])"
  using assms by (simp add: checkIncomeUpdatePrompt_def Let_def COOLDOWN_DAYS_DECLINED_def)

text \<open>
  C6. Declared income 500000, an average of 650000 over the trailing three months, at least
  two of them with income, and the cooldown elapsed: the check stores the time of the
  prompt and sends it, offering 650000. Accepting sets the declared income to 650000 and
  clears the refusal flag; refusing sets the flag, and with the flag set no further prompt
  is sent until 60 days have passed since the last one.
\<close>

theorem income_reestimation_scenario:
  assumes "u_monthly_income usr = 500000"
      and "avg_income (u_id usr) (current_date ev) d = 650000"
      and "months_with_income (u_id usr) (current_date ev) d \<ge> 2"
      and "cooldown_elapsed usr ev"
  shows "checkIncomeUpdatePrompt usr ev d =
           (update_user (u_id usr) (\<lambda>u. u\<lparr>u_last_income_update_prompt := Some (now_ms ev)\<rparr>) d,
            [IncomeUpdatePrompt 500000 650000]) \<and>
         handleIncomeUpdateResponse usr True ev (fst (checkIncomeUpdatePrompt usr ev d)) =
           (update_user (u_id usr)
              (\<lambda>u. u\<lparr>u_monthly_income := 650000, u_income_update_declined := False\<rparr>)
              (fst (checkIncomeUpdatePrompt usr ev d)),
            [IncomeUpdated 650000]) \<and>
         handleIncomeUpdateResponse usr False ev (fst (checkIncomeUpdatePrompt usr ev d)) =
           (update_user (u_id usr) (\<lambda>u. u\<lparr>u_income_update_declined := True\<rparr>)
              (fst (checkIncomeUpdatePrompt usr ev d)),
            [IncomeKept 500000]) \<and>
         (\<forall>usr' ev' d' t.
            u_income_update_declined usr' \<and> u_last_income_update_prompt usr' = Some t \<and>
            (of_int (now_ms ev' - t) :: rat) / (1000 * 60 * 60 * 24) < 60 \<longrightarrow>
            checkIncomeUpdatePrompt usr' ev' d' = (d', []))"
proof -
  have p: "checkIncomeUpdatePrompt usr ev d =
           (update_user (u_id usr) (\<lambda>u. u\<lparr>u_last_income_update_prompt := Some (now_ms ev)\<rparr>) d,
            [IncomeUpdatePrompt 500000 650000])"
    using assms
    by (cases "u_last_income_update_prompt usr"; cases "u_income_update_declined usr")
       (simp_all add: checkIncomeUpdatePrompt_def cooldown_elapsed_def Let_def
          MIN_MONTHS_HISTORY_def DIFF_THRESHOLD_PERCENT_def COOLDOWN_DAYS_DECLINED_def
          COOLDOWN_DAYS_NORMAL_def)
  have q: "handleIncomeUpdateResponse usr True ev (fst (checkIncomeUpdatePrompt usr ev d)) =
           (update_user (u_id usr)
              (\<lambda>u. u\<lparr>u_monthly_income := 650000, u_income_update_declined := False\<rparr>)
              (fst (checkIncomeUpdatePrompt usr ev d)),
            [IncomeUpdated 650000])"
    unfolding p using assms(2) by (simp add: handleIncomeUpdateResponse_def Let_def)
  have r: "handleIncomeUpdateResponse usr False ev (fst (checkIncomeUpdatePrompt usr ev d)) =
           (update_user (u_id usr) (\<lambda>u. u\<lparr>u_income_update_declined := True\<rparr>)
              (fst (checkIncomeUpdatePrompt usr ev d)),
            [IncomeKept 500000])"
    using assms(1) by (simp add: handleIncomeUpdateResponse_def)
  show ?thesis
    using p q r declined_cooldown by blast
qed

theorem income_reestimation_scenario_witness:
  "snd (checkIncomeUpdatePrompt raise_user sample_env raise_db) = [IncomeUpdatePrompt 500000 650000] \<and>
   map u_monthly_income
     (users (fst (handleIncomeUpdateResponse raise_user True sample_env
                    (fst (checkIncomeUpdatePrompt raise_user sample_env raise_db))))) = [650000] \<and>
   map u_income_update_declined
     (users (fst (handleIncomeUpdateResponse raise_user False sample_env
                    (fst (checkIncomeUpdatePrompt raise_user sample_env raise_db))))) = [True]"
proof -
  have h: "u_monthly_income raise_user = 500000"
    "avg_income (u_id raise_user) (current_date sample_env) raise_db = 650000"
    "months_with_income (u_id raise_user) (current_date sample_env) raise_db \<ge> 2"
    "cooldown_elapsed raise_user sample_env"
    by code_simp+
  note t = income_reestimation_scenario[OF h]
  have a: "checkIncomeUpdatePrompt raise_user sample_env raise_db =
           (update_user (u_id raise_user)
              (\<lambda>u. u\<lparr>u_last_income_update_prompt := Some (now_ms sample_env)\<rparr>) raise_db,
            [IncomeUpdatePrompt 500000 650000])"
    using t by (rule conjunct1)
  have b: "fst (handleIncomeUpdateResponse raise_user True sample_env
                  (fst (checkIncomeUpdatePrompt raise_user sample_env raise_db))) =
           update_user (u_id raise_user)
             (\<lambda>u. u\<lparr>u_monthly_income := 650000, u_income_update_declined := False\<rparr>)
             (fst (checkIncomeUpdatePrompt raise_user sample_env raise_db))"
    by (simp only: t[THEN conjunct2, THEN conjunct1] fst_conv)
  have c: "fst (handleIncomeUpdateResponse raise_user False sample_env
                  (fst (checkIncomeUpdatePrompt raise_user sample_env raise_db))) =
           update_user (u_id raise_user) (\<lambda>u. u\<lparr>u_income_update_declined := True\<rparr>)
             (fst (checkIncomeUpdatePrompt raise_user sample_env raise_db))"
    by (simp only: t[THEN conjunct2, THEN conjunct2, THEN conjunct1] fst_conv)
  show ?thesis
    unfolding b c unfolding a
    by (simp add: update_user_def raise_db_def empty_db_def raise_user_def sample_user_def)
qed

subsection \<open>Marking as fixed\<close>

lemma handleMarkAsFixed_marks:
  "marks_transaction usr ev d t \<Longrightarrow> handleMarkAsFixed usr ev d = mark_found_transaction usr t d"
  by (auto simp: marks_transaction_def handleMarkAsFixed_def Let_def split: option.splits if_splits)

lemma distinct_key_unique:
  "distinct (map k xs) \<Longrightarrow> x \<in> set xs \<Longrightarrow> y \<in> set xs \<Longrightarrow> k x = k y \<Longrightarrow> x = y"
  by (meson distinct_map inj_onD)

lemma find_unique:
  assumes "fixed_unique d" "fe \<in> set (fixed_expenses d)" "fe_user_id fe = uid"
          "toLowerCase (fe_description fe) = toLowerCase description"
  shows "findFixedExpenseByDescription uid description d = Some fe"
proof -
  let ?P = "\<lambda>x. fe_user_id x = uid \<and> toLowerCase (fe_description x) = toLowerCase description"
  have "\<exists>x. find ?P (fixed_expenses d) = Some x"
    using assms(2,3,4) by (cases "find ?P (fixed_expenses d)") (auto simp: find_None_iff)
  then obtain x where x: "find ?P (fixed_expenses d) = Some x" by blast
  then have "x \<in> set (fixed_expenses d)" "?P x"
    by (auto simp: find_Some_iff)
  then have "x = fe"
    using assms distinct_key_unique[of "\<lambda>fe. (fe_user_id fe, toLowerCase (fe_description fe))"
        "fixed_expenses d" x fe]
    by (simp add: fixed_unique_def)
  then show ?thesis using x by (simp add: findFixedExpenseByDescription_def)
qed

lemma same_description_unique:
  assumes "fixed_unique d" "fe \<in> set (fixed_expenses d)" "fe_user_id fe = uid"
          "toLowerCase (fe_description fe) = toLowerCase description"
  shows "length (same_description uid description d) = 1"
proof -
  have "length (filter (\<lambda>x. (fe_user_id x, toLowerCase (fe_description x)) =
                             (uid, toLowerCase description)) (fixed_expenses d)) \<le> 1"
    using assms(1) unfolding fixed_unique_def by (rule distinct_key_filter)
  then have le: "length (same_description uid description d) \<le> 1"
    by (simp add: same_description_def)
  have "fe \<in> set (same_description uid description d)"
    using assms by (simp add: same_description_def)
  then show ?thesis
    using le by (cases "same_description uid description d") auto
qed

text \<open>
  On a store with at most one fixed expense per user and lower-cased description,
  \<open>handleMarkAsFixed\<close> about a transaction of the user whose description equals, without
  case, that of an active fixed expense of the user replies "already in your fixed
  expenses", clears the pending action and leaves the table of fixed expenses as it is.
\<close>

lemma mark_active_under_invariant:
  assumes "fixed_unique d"
      and "marks_transaction usr ev d t"
      and "tx_by_id t (u_id usr) d = Some tx"
      and "fe \<in> set (fixed_expenses d)" and "fe_user_id fe = u_id usr" and "fe_is_active fe"
      and "toLowerCase (fe_description fe) = toLowerCase (tx_description tx)"
  shows "handleMarkAsFixed usr ev d =
           (clearPendingFixedExpense (u_id usr) d, [AlreadyFixed (tx_description tx)]) \<and>
         fixed_expenses (fst (handleMarkAsFixed usr ev d)) = fixed_expenses d \<and>
         length (same_description (u_id usr) (tx_description tx) (fst (handleMarkAsFixed usr ev d))) = 1 \<and>
         fixed_unique (fst (handleMarkAsFixed usr ev d))"
proof -
  have f: "findFixedExpenseByDescription (u_id usr) (tx_description tx) d = Some fe"
    using assms(1,4,5,7) by (rule find_unique)
  have r: "handleMarkAsFixed usr ev d =
           (clearPendingFixedExpense (u_id usr) d, [AlreadyFixed (tx_description tx)])"
    using handleMarkAsFixed_marks[OF assms(2)] assms(3,6) f
    by (simp add: mark_found_transaction_def Let_def)
  have s: "length (same_description (u_id usr) (tx_description tx) d) = 1"
    using assms(1,4,5,7) by (rule same_description_unique)
  show ?thesis
    unfolding r using s assms(1) by (simp add: same_description_def fixed_unique_def)
qed

lemma mark_active_under_invariant_netflix:
  "handleMarkAsFixed (sample_user\<lparr>u_pending_fixed_expense_id := Some (- 12)\<rparr>) sample_env netflix_db =
     (netflix_db\<lparr>users := [sample_user]\<rparr>, [AlreadyFixed ''NETFLIX'']) \<and>
   length (same_description 1 ''NETFLIX''
             (fst (handleMarkAsFixed (sample_user\<lparr>u_pending_fixed_expense_id := Some (- 12)\<rparr>)
                     sample_env netflix_db))) = 1"
proof -
  let ?u = "sample_user\<lparr>u_pending_fixed_expense_id := Some (- 12)\<rparr>"
  let ?fe = "sample_fixed\<lparr>fe_id := 4, fe_description := ''Netflix'', fe_typical_amount := 8990\<rparr>"
  have h: "fixed_unique netflix_db" "marks_transaction ?u sample_env netflix_db 12"
    "tx_by_id 12 (u_id ?u) netflix_db = Some (expense 12 ''NETFLIX'' 8990 1770699990000)"
    "?fe \<in> set (fixed_expenses netflix_db)" "fe_user_id ?fe = u_id ?u" "fe_is_active ?fe"
    "toLowerCase (fe_description ?fe) =
     toLowerCase (tx_description (expense 12 ''NETFLIX'' 8990 1770699990000))"
    by code_simp+
  have c: "clearPendingFixedExpense 1 netflix_db = netflix_db\<lparr>users := [sample_user]\<rparr>"
    by (simp add: clearPendingFixedExpense_def update_user_def netflix_db_def empty_db_def
        sample_user_def)
  have d: "tx_description (expense 12 ''NETFLIX'' 8990 1770699990000) = ''NETFLIX''"
    "u_id ?u = 1"
    by (simp_all add: expense_def sample_user_def)
  note t = mark_active_under_invariant[OF h]
  have r: "handleMarkAsFixed ?u sample_env netflix_db =
           (clearPendingFixedExpense (u_id ?u) netflix_db,
            [AlreadyFixed (tx_description (expense 12 ''NETFLIX'' 8990 1770699990000))])"
    using t by (rule conjunct1)
  have l: "length (same_description (u_id ?u)
                     (tx_description (expense 12 ''NETFLIX'' 8990 1770699990000))
                     (fst (handleMarkAsFixed ?u sample_env netflix_db))) = 1"
    using t by blast
  show ?thesis
    using r[unfolded d] l[unfolded d] c by simp
qed

text \<open>
  C7. The handlers do not keep the store at one fixed expense per user and lower-cased
  description, and on a store with two such rows marking as fixed does not behave as on
  a store with one. \<open>findFixedExpenseByDescription\<close> is there "para evitar duplicados", and
  \<open>handleTransaction\<close> looks up \<open>description || categoryRealName\<close>, the text it then inserts;
  \<open>handleMarkAsFixed\<close> looks up \<open>tx.description\<close> and inserts
  \<open>tx.description || tx.category_name\<close>.

  The sample user declines the suggestion for the expense "arriendo", which stores an
  inactive row "arriendo"; the store still has one row per description. An expense with
  no description in the category "arriendo" is then marked as fixed: \<open>handleMarkAsFixed\<close>
  looks up the empty description, finds nothing, and creates a row under the category's
  name, a second row "arriendo", this one active. The description of the next expense,
  "Arriendo", matches that active row; marking it as fixed finds the inactive row first,
  replies "marked as fixed" and not "already in your fixed expenses", and leaves two
  active rows for the description.
\<close>

theorem mark_as_fixed_duplicate_rows:
  "processUserMessage declined_user ''no'' sample_env declined_db =
     Classify (unnamed_db\<lparr>transactions := [expense 20 ''arriendo'' 450000 1770000000000],
                          transactions_seq := 21\<rparr>) \<and>
   fixed_unique unnamed_db \<and>
   snd (handleMarkAsFixed sample_user sample_env unnamed_db) = [MarkedAsFixed ''''] \<and>
   fixed_expenses (fst (handleMarkAsFixed sample_user sample_env unnamed_db)) =
     fixed_expenses duplicate_db \<and>
   transactions (fst (handleMarkAsFixed sample_user sample_env unnamed_db)) =
     butlast (transactions duplicate_db) \<and>
   \<not> fixed_unique duplicate_db \<and>
   map (\<lambda>fe. (fe_id fe, fe_description fe, fe_is_active fe))
     (same_description 1 ''Arriendo'' duplicate_db) =
     [(1, ''arriendo'', False), (2, ''arriendo'', True)] \<and>
   marks_transaction sample_user sample_env duplicate_db 22 \<and>
   map_option tx_description (tx_by_id 22 1 duplicate_db) = Some ''Arriendo'' \<and>
   snd (handleMarkAsFixed sample_user sample_env duplicate_db) = [MarkedAsFixed ''Arriendo''] \<and>
   map (\<lambda>fe. (fe_id fe, fe_description fe, fe_is_active fe))
     (same_description 1 ''Arriendo'' (fst (handleMarkAsFixed sample_user sample_env duplicate_db))) =
     [(1, ''arriendo'', True), (2, ''arriendo'', True)]"
  by code_simp

end
